theory Spec2Isabelle
  imports Complex_Main
begin

section \<open>Ride lifecycle and booking engine of the ride-sharing server\<close>

text \<open>
  The routes of the ride router (\<^verbatim>\<open>router.post("/")\<close>, \<^verbatim>\<open>"/join"\<close>,
  \<^verbatim>\<open>"/start"\<close>, \<^verbatim>\<open>"/complete"\<close>, \<^verbatim>\<open>"/cancel"\<close>) are embedded as functions
  from the store before the request to an error or the store after it. Each request is
  taken as one sequential step on the store; arithmetic on fares and scores is exact
  (\<open>real\<close>), where the server computes with JavaScript numbers and database decimals.
\<close>

subsection \<open>Dates\<close>

text \<open>
  A JavaScript \<^verbatim>\<open>Date\<close> is the number of milliseconds since the epoch
  (\<^verbatim>\<open>getTime()\<close>). The local-time accessors depend on the server's time zone: it is
  the parameter \<open>tz\<close>, the offset of local time from UTC in milliseconds, taken as
  constant (no daylight saving). The triple (\<^verbatim>\<open>getFullYear\<close>, \<^verbatim>\<open>getMonth\<close>,
  \<^verbatim>\<open>getDate\<close>) is the local calendar day, kept as the number of that day;
  \<^verbatim>\<open>new Date(y, m, d, ...)\<close> of such a triple is that same day (for years from 100 on).
\<close>

type_synonym date = int

definition localDay :: "int \<Rightarrow> date \<Rightarrow> int" where
  "localDay tz t = (t + tz) div 86400000"

definition getHours :: "int \<Rightarrow> date \<Rightarrow> int" where
  "getHours tz t = ((t + tz) mod 86400000) div 3600000"

definition getMinutes :: "int \<Rightarrow> date \<Rightarrow> int" where
  "getMinutes tz t = ((t + tz) mod 3600000) div 60000"

definition getSeconds :: "int \<Rightarrow> date \<Rightarrow> int" where
  "getSeconds tz t = ((t + tz) mod 60000) div 1000"

definition getMilliseconds :: "int \<Rightarrow> date \<Rightarrow> int" where
  "getMilliseconds tz t = (t + tz) mod 1000"

text \<open>\<^verbatim>\<open>new Date(year, month, day, hours, minutes, seconds, ms)\<close>, in local time.\<close>

definition newDate :: "int \<Rightarrow> int \<Rightarrow> int \<Rightarrow> int \<Rightarrow> int \<Rightarrow> int \<Rightarrow> date" where
  "newDate tz day h m sec ms =
     day * 86400000 + h * 3600000 + m * 60000 + sec * 1000 + ms - tz"

text \<open>\<^verbatim>\<open>d.setHours(h, m)\<close>: the local day, seconds and milliseconds of \<open>d\<close> stay.\<close>

definition setHours :: "int \<Rightarrow> date \<Rightarrow> int \<Rightarrow> int \<Rightarrow> date" where
  "setHours tz d h m =
     newDate tz (localDay tz d) h m (getSeconds tz d) (getMilliseconds tz d)"

text \<open>\<^verbatim>\<open>Math.round\<close> rounds to the nearest integer, a half towards plus infinity.\<close>

definition Math_round :: "real \<Rightarrow> int" where
  "Math_round x = \<lfloor>x + 1 / 2\<rfloor>"

subsection \<open>The data model\<close>

type_synonym ident = string

datatype RideStatus = Ride_open | Ride_active | Ride_completed | Ride_cancelled

datatype ParticipantStatus = P_booked | P_cancelled

datatype VehicleType = Car | Suv | Auto

record User =
  credibility_score :: real
  cancellation_count :: int

text \<open>A ride row; its \<^verbatim>\<open>ride_id\<close> is the key of the table \<open>rides\<close> below.\<close>

record Ride =
  driver_id :: ident
  vehicle_id :: ident
  start_location :: string
  end_location :: string
  start_date :: date
  start_time :: date
  total_fare :: real
  max_passengers :: int
  status :: RideStatus

record RideParticipant =
  rp_id :: nat
  rp_ride_id :: ident
  rp_user_id :: ident
  rp_status :: ParticipantStatus
  share_fare :: real
  booking_time :: date

record RideCancellation =
  rc_ride_id :: ident
  rc_user_id :: ident
  cancelled_at :: date

text \<open>
  The store behind the Prisma client. Users and rides are keyed by their ids; a user has
  at most one vehicle (\<^verbatim>\<open>findUnique({ where: { user_id } })\<close>), so the vehicle table is
  keyed by its owner and a ride's \<^verbatim>\<open>vehicle_id\<close> is that key. Participants and the
  cancellation log are kept in insertion order.
\<close>

record Store =
  users :: "ident \<rightharpoonup> User"
  vehicles :: "ident \<rightharpoonup> VehicleType"
  rides :: "ident \<rightharpoonup> Ride"
  participants :: "RideParticipant list"
  cancellations :: "RideCancellation list"

text \<open>
  The error kinds of the responses. \<open>errorBody\<close> gives the HTTP status and the
  \<^verbatim>\<open>error\<close> string the route sends for each; \<open>ValidationError\<close> is a failed
  \<^verbatim>\<open>schema.parse\<close> and \<open>StoreError\<close> an exception of the Prisma client (an update of a
  row that does not exist, a violated unique constraint, an invalid date), both passed
  to \<^verbatim>\<open>next(err)\<close>.
\<close>

datatype Error =
    ValidationError
  | StoreError
  | RideNotFound
  | RideNotOpen
  | CannotBookOwnRide
  | AlreadyInActiveRide
  | RideFull
  | AlreadyBooked
  | NotRideOwner
  | InvalidState
  | TooEarly

fun errorBody :: "Error \<Rightarrow> (nat \<times> string) option" where
  "errorBody RideNotFound = Some (404, ''RideNotFound'')"
| "errorBody RideNotOpen = Some (400, ''RideNotOpen'')"
| "errorBody CannotBookOwnRide = Some (400, ''Cannot book your own ride'')"
| "errorBody AlreadyInActiveRide =
     Some (400, ''You already have an active booking for another ride'')"
| "errorBody RideFull = Some (400, ''RideFull'')"
| "errorBody AlreadyBooked = Some (400, ''AlreadyBooked'')"
| "errorBody NotRideOwner = Some (403, ''NotRideOwner'')"
| "errorBody InvalidState = Some (400, ''InvalidState'')"
| "errorBody TooEarly = Some (400, ''Can't start before start time'')"
| "errorBody ValidationError = None"
| "errorBody StoreError = None"

subsection \<open>Queries\<close>

text \<open>\<^verbatim>\<open>rideParticipant.findUnique({ where: { ride_id_user_id } })\<close>\<close>

definition findParticipant :: "Store \<Rightarrow> ident \<Rightarrow> ident \<Rightarrow> RideParticipant option" where
  "findParticipant s rid uid =
     find (\<lambda>p. rp_ride_id p = rid \<and> rp_user_id p = uid) (participants s)"

text \<open>\<^verbatim>\<open>include: { participants: true }\<close> of a ride.\<close>

definition rideParticipants :: "Store \<Rightarrow> ident \<Rightarrow> RideParticipant list" where
  "rideParticipants s rid = filter (\<lambda>p. rp_ride_id p = rid) (participants s)"

text \<open>
  The ride statuses that a string literal of a query names. \<^verbatim>\<open>"booked"\<close> is a status
  of participants and names no status of a ride.
\<close>

fun rideStatusOf :: "string \<Rightarrow> RideStatus option" where
  "rideStatusOf lit =
     (if lit = ''open'' then Some Ride_open
      else if lit = ''active'' then Some Ride_active
      else if lit = ''completed'' then Some Ride_completed
      else if lit = ''cancelled'' then Some Ride_cancelled
      else None)"

text \<open>
  The active-booking query of \<^verbatim>\<open>/join\<close>:
  \<^verbatim>\<open>findFirst({ where: { user_id, status: "booked",
      ride: { status: { in: ["open", "booked"] }, start_date: { gte: new Date() } } } })\<close>
\<close>

definition activeBooking :: "Store \<Rightarrow> date \<Rightarrow> ident \<Rightarrow> RideParticipant option" where
  "activeBooking s now uid =
     find (\<lambda>p. rp_user_id p = uid \<and> rp_status p = P_booked \<and>
              (case rides s (rp_ride_id p) of
                 None \<Rightarrow> False
               | Some r \<Rightarrow>
                   Some (status r) \<in> set (map rideStatusOf [''open'', ''booked'']) \<and>
                   now \<le> start_date r))
          (participants s)"

text \<open>
  Modelled from the spec: the schema of the database is not among the sources. It gives
  a new participant row the status \<^verbatim>\<open>booked\<close> and the time of the insert as
  \<^verbatim>\<open>booking_time\<close>, and a new ride the status \<^verbatim>\<open>open\<close>.
\<close>

definition defaultParticipantStatus :: ParticipantStatus where
  [simp]: "defaultParticipantStatus = P_booked"

definition defaultRideStatus :: RideStatus where
  [simp]: "defaultRideStatus = Ride_open"

text \<open>
  Modelled from the spec: the ids of participant rows are unique; a new row takes an id
  that no row has yet.
\<close>

definition nextParticipantId :: "RideParticipant list \<Rightarrow> nat" where
  "nextParticipantId ps = Suc (fold max (map rp_id ps) 0)"

subsection \<open>Joining a ride\<close>

definition joinRide ::
  "Store \<Rightarrow> date \<Rightarrow> ident \<Rightarrow> ident \<Rightarrow> Error + Store \<times> RideParticipant" where
  "joinRide s now userId rid =
     (case rides s rid of
        None \<Rightarrow> Inl RideNotFound
      | Some ride \<Rightarrow>
          if status ride \<noteq> Ride_open then Inl RideNotOpen
          else if driver_id ride = userId then Inl CannotBookOwnRide
          else if activeBooking s now userId \<noteq> None then Inl AlreadyInActiveRide
          else
            let bookedCount =
                  int (length (filter (\<lambda>p. rp_status p = P_booked) (rideParticipants s rid)));
                currentHeadcount = bookedCount + 1
            in if currentHeadcount \<ge> max_passengers ride then Inl RideFull
               else
                 let newHeadcount = currentHeadcount + 1;
                     share = total_fare ride / real_of_int newHeadcount
                 in (case findParticipant s rid userId of
                       Some existing \<Rightarrow>
                         if rp_status existing = P_booked then Inl AlreadyBooked
                         else
                           Inr (s\<lparr>participants :=
                                    map (\<lambda>p. if rp_id p = rp_id existing
                                              then p\<lparr>rp_status := P_booked, share_fare := share\<rparr>
                                              else p)
                                        (participants s)\<rparr>,
                                existing\<lparr>rp_status := P_booked, share_fare := share\<rparr>)
                     | None \<Rightarrow>
                         let participant =
                               \<lparr>rp_id = nextParticipantId (participants s),
                                rp_ride_id = rid, rp_user_id = userId,
                                rp_status = defaultParticipantStatus, share_fare = share,
                                booking_time = now\<rparr>
                         in Inr (s\<lparr>participants := participants s @ [participant]\<rparr>,
                                 participant)))"

subsection \<open>Updates of single rows\<close>

text \<open>
  \<^verbatim>\<open>ride.update({ where: { ride_id }, data })\<close> and
  \<^verbatim>\<open>user.update({ where: { user_id }, data })\<close> change the row with that key and
  throw when there is none.
\<close>

definition updateRide :: "Store \<Rightarrow> ident \<Rightarrow> (Ride \<Rightarrow> Ride) \<Rightarrow> Store option" where
  "updateRide s rid f =
     (case rides s rid of
        None \<Rightarrow> None
      | Some r \<Rightarrow> Some (s\<lparr>rides := (rides s)(rid \<mapsto> f r)\<rparr>))"

definition updateUser :: "Store \<Rightarrow> ident \<Rightarrow> (User \<Rightarrow> User) \<Rightarrow> Store option" where
  "updateUser s uid f =
     (case users s uid of
        None \<Rightarrow> None
      | Some u \<Rightarrow> Some (s\<lparr>users := (users s)(uid \<mapsto> f u)\<rparr>))"

text \<open>\<^verbatim>\<open>rideParticipant.update({ where: { id }, data })\<close> on a row that was just read.\<close>

definition updateParticipant ::
  "Store \<Rightarrow> nat \<Rightarrow> (RideParticipant \<Rightarrow> RideParticipant) \<Rightarrow> Store" where
  "updateParticipant s i f =
     s\<lparr>participants := map (\<lambda>p. if rp_id p = i then f p else p) (participants s)\<rparr>"

text \<open>\<^verbatim>\<open>rideParticipant.delete({ where: { id } })\<close>\<close>

definition deleteParticipant :: "Store \<Rightarrow> nat \<Rightarrow> Store" where
  "deleteParticipant s i =
     s\<lparr>participants := filter (\<lambda>p. rp_id p \<noteq> i) (participants s)\<rparr>"

text \<open>\<^verbatim>\<open>rideCancellation.create({ data: { ride_id, user_id, cancelled_at } })\<close>\<close>

definition logCancellation :: "Store \<Rightarrow> ident \<Rightarrow> ident \<Rightarrow> date \<Rightarrow> Store" where
  "logCancellation s rid uid now =
     s\<lparr>cancellations := cancellations s @
          [\<lparr>rc_ride_id = rid, rc_user_id = uid, cancelled_at = now\<rparr>]\<rparr>"

text \<open>\<^verbatim>\<open>rideParticipant.count({ where: { ride_id, status: "booked" } })\<close>\<close>

definition bookedCount :: "Store \<Rightarrow> ident \<Rightarrow> nat" where
  "bookedCount s rid =
     length (filter (\<lambda>p. rp_ride_id p = rid \<and> rp_status p = P_booked) (participants s))"

text \<open>
  \<^verbatim>\<open>include: { participants: { where: { status: "booked" },
      orderBy: { booking_time: "asc" } } }\<close>.
  The order among rows of equal \<^verbatim>\<open>booking_time\<close> is the database's choice; here
  the sort is stable.
\<close>

definition bookedByTime :: "Store \<Rightarrow> ident \<Rightarrow> RideParticipant list" where
  "bookedByTime s rid =
     sort_key booking_time
       (filter (\<lambda>p. rp_ride_id p = rid \<and> rp_status p = P_booked) (participants s))"

subsection \<open>Starting and completing a ride\<close>

definition startRide ::
  "int \<Rightarrow> Store \<Rightarrow> date \<Rightarrow> ident \<Rightarrow> ident \<Rightarrow> Error + Store \<times> Ride" where
  "startRide tz s now userId rid =
     (case rides s rid of
        None \<Rightarrow> Inl RideNotFound
      | Some ride \<Rightarrow>
          if driver_id ride \<noteq> userId then Inl NotRideOwner
          else if status ride \<noteq> Ride_open then Inl InvalidState
          else
            let rideStartDateTime =
                  newDate tz (localDay tz (start_date ride))
                    (getHours tz (start_time ride)) (getMinutes tz (start_time ride))
                    (getSeconds tz (start_time ride)) (getMilliseconds tz (start_time ride))
            in if now < rideStartDateTime then Inl TooEarly
               else Inr (s\<lparr>rides := (rides s)(rid \<mapsto> ride\<lparr>status := Ride_active\<rparr>)\<rparr>,
                         ride\<lparr>status := Ride_active\<rparr>))"

definition completeRide :: "Store \<Rightarrow> ident \<Rightarrow> ident \<Rightarrow> Error + Store \<times> Ride" where
  "completeRide s userId rid =
     (case rides s rid of
        None \<Rightarrow> Inl RideNotFound
      | Some ride \<Rightarrow>
          if driver_id ride \<noteq> userId then Inl NotRideOwner
          else if status ride \<noteq> Ride_active then Inl InvalidState
          else Inr (s\<lparr>rides := (rides s)(rid \<mapsto> ride\<lparr>status := Ride_completed\<rparr>)\<rparr>,
                    ride\<lparr>status := Ride_completed\<rparr>))"

subsection \<open>Cancelling\<close>

text \<open>
  The response of \<^verbatim>\<open>/cancel\<close>: \<^verbatim>\<open>{ cancelled: true, penalty }\<close> for a participant,
  \<^verbatim>\<open>{ cancelled: true, driver_cancelled: true, transferred }\<close> for the driver.
\<close>

datatype CancelResult = ParticipantCancelled int | DriverCancelled bool

text \<open>
  \<^verbatim>\<open>startDateTime = new Date(start_date); startDateTime.setHours(hours, minutes)\<close>
  of the ride's \<^verbatim>\<open>start_time\<close>, and the hours from now until then.
\<close>

definition diffHours :: "int \<Rightarrow> Ride \<Rightarrow> date \<Rightarrow> real" where
  "diffHours tz ride now =
     (let startDateTime =
            setHours tz (start_date ride)
              (getHours tz (start_time ride)) (getMinutes tz (start_time ride));
          diffMs = startDateTime - now
      in real_of_int diffMs / (1000 * 60 * 60))"

text \<open>The transaction of the driver's branch; \<open>None\<close> when a statement throws.\<close>

definition driverCancelTx ::
  "Store \<Rightarrow> date \<Rightarrow> ident \<Rightarrow> ident \<Rightarrow> real \<Rightarrow> RideParticipant list \<Rightarrow> Store option" where
  "driverCancelTx s now userId rid penalty booked =
     (let s1 = logCancellation s rid userId now
      in case updateUser s1 userId
                (\<lambda>u. u\<lparr>cancellation_count := cancellation_count u + 1,
                        credibility_score := credibility_score u - penalty\<rparr>) of
           None \<Rightarrow> None
         | Some s2 \<Rightarrow>
             (case booked of
                firstBooked # _ \<Rightarrow>
                  (case updateRide s2 rid
                          (\<lambda>r. r\<lparr>driver_id := rp_user_id firstBooked, status := Ride_open\<rparr>) of
                     None \<Rightarrow> None
                   | Some s3 \<Rightarrow> Some (deleteParticipant s3 (rp_id firstBooked)))
              | [] \<Rightarrow> updateRide s2 rid (\<lambda>r. r\<lparr>status := Ride_cancelled\<rparr>)))"

text \<open>The transaction of the participant's branch.\<close>

definition participantCancelTx ::
  "Store \<Rightarrow> date \<Rightarrow> ident \<Rightarrow> ident \<Rightarrow> RideParticipant \<Rightarrow> int \<Rightarrow> Store option" where
  "participantCancelTx s now userId rid rp penalty =
     (let s1 = updateParticipant s (rp_id rp) (\<lambda>p. p\<lparr>rp_status := P_cancelled\<rparr>);
          s2 = logCancellation s1 rid userId now;
          remaining = bookedCount s2 rid
      in case (if remaining = 0
               then updateRide s2 rid (\<lambda>r. r\<lparr>status := Ride_open\<rparr>)
               else Some s2) of
           None \<Rightarrow> None
         | Some s3 \<Rightarrow>
             updateUser s3 userId
               (\<lambda>u. u\<lparr>cancellation_count := cancellation_count u + 1,
                       credibility_score :=
                         credibility_score u - (if penalty > 0 then 5 else 2)\<rparr>))"

definition cancelRide ::
  "int \<Rightarrow> Store \<Rightarrow> date \<Rightarrow> ident \<Rightarrow> ident \<Rightarrow> Error + Store \<times> CancelResult" where
  "cancelRide tz s now userId rid =
     (case findParticipant s rid userId of
        None \<Rightarrow>
          (case rides s rid of
             None \<Rightarrow> Inl RideNotFound
           | Some ride \<Rightarrow>
               if driver_id ride \<noteq> userId then Inl NotRideOwner
               else
                 let booked = bookedByTime s rid;
                     penalty = (if diffHours tz ride now < 3 then 5 else 2)
                 in (case driverCancelTx s now userId rid penalty booked of
                       None \<Rightarrow> Inl StoreError
                     | Some s' \<Rightarrow> Inr (s', DriverCancelled (booked \<noteq> []))))
      | Some rp \<Rightarrow>
          (case rides s (rp_ride_id rp) of
             None \<Rightarrow> Inl StoreError
           | Some ride \<Rightarrow>
               let penalty =
                     (if diffHours tz ride now < 3
                      then max 0 (Math_round (share_fare rp * 0.25))
                      else 0)
               in (case participantCancelTx s now userId rid rp penalty of
                     None \<Rightarrow> Inl StoreError
                   | Some s' \<Rightarrow> Inr (s', ParticipantCancelled penalty))))"

subsection \<open>Creating a ride\<close>

text \<open>
  The request body of \<^verbatim>\<open>POST /\<close>. The two date strings are kept as what
  \<^verbatim>\<open>new Date(string)\<close> reads from them, \<open>None\<close> for an invalid date; any string
  passes \<^verbatim>\<open>z.string()\<close>.
\<close>

record RideCreateBody =
  b_start_location :: string
  b_end_location :: string
  b_start_date :: "date option"
  b_start_time :: "date option"
  b_total_fare :: real
  b_vehicle_type :: string
  b_max_passengers :: real

fun vehicleTypeOf :: "string \<Rightarrow> VehicleType option" where
  "vehicleTypeOf lit =
     (if lit = ''car'' then Some Car
      else if lit = ''suv'' then Some Suv
      else if lit = ''auto'' then Some Auto
      else None)"

text \<open>\<^verbatim>\<open>rideCreateSchema.parse\<close> succeeds.\<close>

definition rideCreateSchema :: "RideCreateBody \<Rightarrow> bool" where
  "rideCreateSchema b \<longleftrightarrow>
     1 \<le> length (b_start_location b) \<and>
     1 \<le> length (b_end_location b) \<and>
     0 < b_total_fare b \<and>
     vehicleTypeOf (b_vehicle_type b) \<noteq> None \<and>
     of_int \<lfloor>b_max_passengers b\<rfloor> = b_max_passengers b \<and>
     1 \<le> b_max_passengers b \<and> b_max_passengers b \<le> 6"

text \<open>
  The route. The vehicle of the caller is written before the ride and outside any
  transaction, so the store is returned in both cases. \<open>newRideId\<close> is the id the
  database gives the new ride; the insert throws when a ride has it already.
\<close>

definition createRide ::
  "Store \<Rightarrow> ident \<Rightarrow> ident \<Rightarrow> RideCreateBody \<Rightarrow> Store \<times> (Error + Ride)" where
  "createRide s userId newRideId b =
     (if \<not> rideCreateSchema b then (s, Inl ValidationError)
      else
        case vehicleTypeOf (b_vehicle_type b) of
          None \<Rightarrow> (s, Inl ValidationError)
        | Some vt \<Rightarrow>
            let s1 = (case vehicles s userId of
                        Some v \<Rightarrow> s\<lparr>vehicles := (vehicles s)(userId \<mapsto> vt)\<rparr>
                      | None \<Rightarrow> s\<lparr>vehicles := (vehicles s)(userId \<mapsto> vt)\<rparr>)
            in (case (b_start_date b, b_start_time b) of
                  (Some sd, Some st) \<Rightarrow>
                    if rides s1 newRideId \<noteq> None then (s1, Inl StoreError)
                    else
                      let ride = \<lparr>driver_id = userId, vehicle_id = userId,
                                  start_location = b_start_location b,
                                  end_location = b_end_location b,
                                  start_date = sd, start_time = st,
                                  total_fare = b_total_fare b,
                                  max_passengers = \<lfloor>b_max_passengers b\<rfloor>,
                                  status = defaultRideStatus\<rparr>
                      in (s1\<lparr>rides := (rides s1)(newRideId \<mapsto> ride)\<rparr>, Inr ride)
                | _ \<Rightarrow> (s1, Inl StoreError)))"

subsection \<open>Sequences of requests\<close>

datatype Request =
    CreateRide ident ident RideCreateBody
  | JoinRide date ident ident
  | StartRide date ident ident
  | CompleteRide ident ident
  | CancelRide date ident ident

text \<open>The store after a request: unchanged when the request fails inside a route.\<close>

fun handle :: "int \<Rightarrow> Store \<Rightarrow> Request \<Rightarrow> Store" where
  "handle tz s (CreateRide userId newRideId b) = fst (createRide s userId newRideId b)"
| "handle tz s (JoinRide now userId rid) =
     (case joinRide s now userId rid of Inl e \<Rightarrow> s | Inr (s', p) \<Rightarrow> s')"
| "handle tz s (StartRide now userId rid) =
     (case startRide tz s now userId rid of Inl e \<Rightarrow> s | Inr (s', r) \<Rightarrow> s')"
| "handle tz s (CompleteRide userId rid) =
     (case completeRide s userId rid of Inl e \<Rightarrow> s | Inr (s', r) \<Rightarrow> s')"
| "handle tz s (CancelRide now userId rid) =
     (case cancelRide tz s now userId rid of Inl e \<Rightarrow> s | Inr (s', r) \<Rightarrow> s')"

fun handleAll :: "int \<Rightarrow> Store \<Rightarrow> Request list \<Rightarrow> Store" where
  "handleAll tz s [] = s"
| "handleAll tz s (q # qs) = handleAll tz (handle tz s q) qs"

text \<open>
  The primary key of the participant table and its foreign key into the ride table.
\<close>

definition wellFormed :: "Store \<Rightarrow> bool" where
  "wellFormed s \<longleftrightarrow>
     distinct (map rp_id (participants s)) \<and>
     list_all (\<lambda>p. rides s (rp_ride_id p) \<noteq> None) (participants s)"

text \<open>Headcount, the host included, is within the capacity of every ride.\<close>

definition capacityOk :: "Store \<Rightarrow> bool" where
  "capacityOk s \<longleftrightarrow>
     (\<forall>rid ride. rides s rid = Some ride \<longrightarrow> int (bookedCount s rid) + 1 \<le> max_passengers ride)"

subsection \<open>Properties of a store\<close>

text \<open>
  The scheduled start of a ride, \<open>start_date\<close> combined with \<open>start_time\<close>: the instant
  on the local day of \<open>start_date\<close> at the local time of day of \<open>start_time\<close>.
  (It is compared with the date that \<^verbatim>\<open>/start\<close> builds in \<open>rideStartDateTime_eq\<close>.)
\<close>

definition scheduledStart :: "int \<Rightarrow> Ride \<Rightarrow> date" where
  "scheduledStart tz ride =
     localDay tz (start_date ride) * 86400000 + (start_time ride + tz) mod 86400000 - tz"

text \<open>
  An active booking on another ride, in the words of the claims: the user has a booked
  participation on a ride other than \<open>rid\<close> whose status is open or active and whose
  scheduled start is in the future. (The query of \<^verbatim>\<open>/join\<close> is \<open>activeBooking\<close>;
  what it asks for is spelled out in \<open>activeBooking_iff\<close>.)
\<close>

definition holdsOtherActiveBooking :: "int \<Rightarrow> Store \<Rightarrow> date \<Rightarrow> ident \<Rightarrow> ident \<Rightarrow> bool" where
  "holdsOtherActiveBooking tz s now uid rid \<longleftrightarrow>
     (\<exists>p\<in>set (participants s).
        rp_user_id p = uid \<and> rp_status p = P_booked \<and> rp_ride_id p \<noteq> rid \<and>
        (case rides s (rp_ride_id p) of
           None \<Rightarrow> False
         | Some r \<Rightarrow>
             (status r = Ride_open \<or> status r = Ride_active) \<and> now < scheduledStart tz r))"

subsection \<open>Example data\<close>

text \<open>
  Small stores on which the theorems below are evaluated. The example rides are
  scheduled for day 10 after the epoch at 12:00 UTC (\<open>907200000\<close> ms); with \<open>tz = 0\<close>,
  \<open>903600000\<close> is one hour and \<open>864000000\<close> twelve hours before that.
\<close>

definition exUser :: User where
  "exUser = \<lparr>credibility_score = 100, cancellation_count = 0\<rparr>"

definition exRide :: "ident \<Rightarrow> real \<Rightarrow> int \<Rightarrow> RideStatus \<Rightarrow> Ride" where
  "exRide driver fare capacity st =
     \<lparr>driver_id = driver, vehicle_id = driver,
      start_location = ''Campus'', end_location = ''Station'',
      start_date = 864000000, start_time = 907200000,
      total_fare = fare, max_passengers = capacity, status = st\<rparr>"

definition exBooking ::
  "nat \<Rightarrow> ident \<Rightarrow> ident \<Rightarrow> ParticipantStatus \<Rightarrow> real \<Rightarrow> date \<Rightarrow> RideParticipant" where
  "exBooking i rid uid st share t =
     \<lparr>rp_id = i, rp_ride_id = rid, rp_user_id = uid, rp_status = st,
      share_fare = share, booking_time = t\<rparr>"

definition exStore :: "(ident \<rightharpoonup> Ride) \<Rightarrow> RideParticipant list \<Rightarrow> Store" where
  "exStore rs ps =
     \<lparr>users = [''d1'' \<mapsto> exUser, ''u1'' \<mapsto> exUser, ''u2'' \<mapsto> exUser, ''u3'' \<mapsto> exUser],
      vehicles = Map.empty, rides = rs, participants = ps, cancellations = []\<rparr>"

text \<open>
  A ride of fare 400 and capacity 4 with two booked participants: \<open>u1\<close> booked first
  (at time 1000), \<open>u2\<close> second (at time 2000); the later booking is the earlier row.
\<close>

definition exTwoBooked :: Store where
  "exTwoBooked =
     exStore [''r1'' \<mapsto> exRide ''d1'' 400 4 Ride_active]
       [exBooking 1 ''r1'' ''u2'' P_booked (400 / 3) 2000,
        exBooking 2 ''r1'' ''u1'' P_booked 200 1000]"

text \<open>The same ride when its only participant has cancelled.\<close>

definition exNoneBooked :: Store where
  "exNoneBooked =
     exStore [''r1'' \<mapsto> exRide ''d1'' 400 4 Ride_open]
       [exBooking 1 ''r1'' ''u2'' P_cancelled 200 2000]"

text \<open>
  Four rides: \<open>r1\<close> (capacity 3) has one booked and one cancelled participant, \<open>r2\<close>
  (capacity 2) is full, \<open>r3\<close> is completed, \<open>r4\<close> is driven by \<open>u2\<close>.
\<close>

definition exJoinStore :: Store where
  "exJoinStore =
     exStore [''r1'' \<mapsto> exRide ''d1'' 300 3 Ride_open,
              ''r2'' \<mapsto> exRide ''d1'' 200 2 Ride_open,
              ''r3'' \<mapsto> exRide ''d1'' 200 4 Ride_completed,
              ''r4'' \<mapsto> exRide ''u2'' 200 4 Ride_open]
       [exBooking 1 ''r2'' ''u2'' P_booked 100 1000,
        exBooking 2 ''r1'' ''u3'' P_booked 150 2000,
        exBooking 3 ''r1'' ''u1'' P_cancelled 150 3000]"

text \<open>A request body for a new ride, by vehicle type and \<open>max_passengers\<close>.\<close>

definition exBody :: "string \<Rightarrow> real \<Rightarrow> RideCreateBody" where
  "exBody vt n =
     \<lparr>b_start_location = ''Campus'', b_end_location = ''Station'',
      b_start_date = Some 864000000, b_start_time = Some 907200000,
      b_total_fare = 300, b_vehicle_type = vt, b_max_passengers = n\<rparr>"

text \<open>An active ride whose only booked participant is \<open>u1\<close>.\<close>

definition exLastBooked :: Store where
  "exLastBooked =
     exStore [''r1'' \<mapsto> exRide ''d1'' 300 4 Ride_active]
       [exBooking 1 ''r1'' ''u1'' P_booked 150 1000,
        exBooking 2 ''r1'' ''u2'' P_cancelled 100 2000]"

section \<open>Auxiliary facts\<close>

lemmas date_defs =
  diffHours_def setHours_def newDate_def localDay_def getHours_def getMinutes_def
  getSeconds_def getMilliseconds_def

lemmas ex_defs = exUser_def exRide_def exBooking_def exStore_def

lemma find_participant_ride:
  "findParticipant s rid uid = Some rp \<Longrightarrow>
     rp_ride_id rp = rid \<and> rp_user_id rp = uid \<and> rp \<in> set (participants s)"
  unfolding findParticipant_def by (auto simp: find_Some_iff)

lemma round_quarter_pos: "0 < max 0 (Math_round (x * 0.25)) \<longleftrightarrow> 2 \<le> x"
  unfolding Math_round_def by (auto simp: max_def; linarith)

lemma updateParticipant_fields [simp]:
  "users (updateParticipant s i f) = users s"
  "rides (updateParticipant s i f) = rides s"
  "vehicles (updateParticipant s i f) = vehicles s"
  "cancellations (updateParticipant s i f) = cancellations s"
  "participants (updateParticipant s i f) =
     map (\<lambda>p. if rp_id p = i then f p else p) (participants s)"
  by (simp_all add: updateParticipant_def)

lemma logCancellation_fields [simp]:
  "users (logCancellation s rid uid now) = users s"
  "rides (logCancellation s rid uid now) = rides s"
  "vehicles (logCancellation s rid uid now) = vehicles s"
  "participants (logCancellation s rid uid now) = participants s"
  "cancellations (logCancellation s rid uid now) =
     cancellations s @ [\<lparr>rc_ride_id = rid, rc_user_id = uid, cancelled_at = now\<rparr>]"
  by (simp_all add: logCancellation_def)

lemma deleteParticipant_fields [simp]:
  "users (deleteParticipant s i) = users s"
  "rides (deleteParticipant s i) = rides s"
  "vehicles (deleteParticipant s i) = vehicles s"
  "cancellations (deleteParticipant s i) = cancellations s"
  "participants (deleteParticipant s i) = filter (\<lambda>p. rp_id p \<noteq> i) (participants s)"
  by (simp_all add: deleteParticipant_def)

lemma updateRide_Some:
  "rides s rid = Some r \<Longrightarrow> updateRide s rid f = Some (s\<lparr>rides := (rides s)(rid \<mapsto> f r)\<rparr>)"
  by (simp add: updateRide_def)

lemma updateUser_Some:
  "users s uid = Some u \<Longrightarrow> updateUser s uid f = Some (s\<lparr>users := (users s)(uid \<mapsto> f u)\<rparr>)"
  by (simp add: updateUser_def)

lemma bookedCount_fields [simp]:
  "bookedCount (s\<lparr>rides := rs\<rparr>) rid = bookedCount s rid"
  "bookedCount (s\<lparr>users := us\<rparr>) rid = bookedCount s rid"
  "bookedCount (s\<lparr>vehicles := vs\<rparr>) rid = bookedCount s rid"
  "bookedCount (logCancellation s r u n) rid = bookedCount s rid"
  by (simp_all add: bookedCount_def)

text \<open>The participant's transaction, once the rows it updates exist.\<close>

lemma participantCancelTx_Some:
  assumes "rides s rid = Some ride" and "users s uid = Some u"
  shows "\<exists>s'. participantCancelTx s now uid rid rp pen = Some s' \<and>
           users s' = (users s)(uid \<mapsto> u\<lparr>cancellation_count := cancellation_count u + 1,
              credibility_score := credibility_score u - (if pen > 0 then 5 else 2)\<rparr>) \<and>
           participants s' =
             map (\<lambda>p. if rp_id p = rp_id rp then p\<lparr>rp_status := P_cancelled\<rparr> else p)
               (participants s) \<and>
           cancellations s' =
             cancellations s @ [\<lparr>rc_ride_id = rid, rc_user_id = uid, cancelled_at = now\<rparr>] \<and>
           rides s' =
             (if bookedCount (updateParticipant s (rp_id rp) (\<lambda>p. p\<lparr>rp_status := P_cancelled\<rparr>)) rid = 0
              then (rides s)(rid \<mapsto> ride\<lparr>status := Ride_open\<rparr>) else rides s)"
  using assms
  by (simp add: participantCancelTx_def Let_def updateRide_Some updateUser_Some)

subsection \<open>The driver's branch of a cancellation\<close>

lemma sort_key_head:
  assumes "sort_key f xs = y # ys"
  shows "y \<in> set xs \<and> (\<forall>x\<in>set xs. f y \<le> f x)"
proof -
  have s: "set (y # ys) = set xs" using assms set_sort[of f xs] by simp
  have "sorted (map f (y # ys))" using assms sorted_sort_key[of f xs] by simp
  then have "\<forall>x\<in>set ys. f y \<le> f x" by simp
  with s show ?thesis by auto
qed

lemma sort_key_Nil_iff: "sort_key f xs = [] \<longleftrightarrow> xs = []"
  using length_sort[of f xs] by (metis length_0_conv)

lemma bookedByTime_empty: "bookedByTime s rid = [] \<longleftrightarrow> bookedCount s rid = 0"
  by (simp add: bookedByTime_def bookedCount_def sort_key_Nil_iff)

lemma bookedByTime_head:
  assumes "bookedByTime s rid = p # ps"
  shows "p \<in> set (participants s) \<and> rp_ride_id p = rid \<and> rp_status p = P_booked \<and>
         (\<forall>q\<in>set (participants s). rp_ride_id q = rid \<and> rp_status q = P_booked \<longrightarrow>
            booking_time p \<le> booking_time q)"
  using sort_key_head[OF assms[unfolded bookedByTime_def]] by auto

lemma driverCancelTx_none_booked:
  assumes "rides s rid = Some ride" and "users s uid = Some u"
  shows "\<exists>s'. driverCancelTx s now uid rid pen [] = Some s' \<and>
           rides s' = (rides s)(rid \<mapsto> ride\<lparr>status := Ride_cancelled\<rparr>) \<and>
           participants s' = participants s \<and>
           users s' = (users s)(uid \<mapsto> u\<lparr>cancellation_count := cancellation_count u + 1,
              credibility_score := credibility_score u - pen\<rparr>) \<and>
           cancellations s' =
             cancellations s @ [\<lparr>rc_ride_id = rid, rc_user_id = uid, cancelled_at = now\<rparr>]"
  using assms
  by (simp add: driverCancelTx_def Let_def updateRide_def updateUser_def)

lemma driverCancelTx_promote:
  assumes "rides s rid = Some ride" and "users s uid = Some u"
  shows "\<exists>s'. driverCancelTx s now uid rid pen (p # ps) = Some s' \<and>
           rides s' = (rides s)(rid \<mapsto> ride\<lparr>driver_id := rp_user_id p, status := Ride_open\<rparr>) \<and>
           participants s' = filter (\<lambda>q. rp_id q \<noteq> rp_id p) (participants s) \<and>
           users s' = (users s)(uid \<mapsto> u\<lparr>cancellation_count := cancellation_count u + 1,
              credibility_score := credibility_score u - pen\<rparr>) \<and>
           cancellations s' =
             cancellations s @ [\<lparr>rc_ride_id = rid, rc_user_id = uid, cancelled_at = now\<rparr>]"
  using assms
  by (simp add: driverCancelTx_def Let_def updateRide_def updateUser_def)

subsection \<open>Joining\<close>

lemma booked_of_ride:
  "length (filter (\<lambda>p. rp_status p = P_booked) (rideParticipants s rid)) = bookedCount s rid"
  by (simp add: rideParticipants_def bookedCount_def conj_commute)

lemma activeBooking_iff:
  "activeBooking s now uid \<noteq> None \<longleftrightarrow>
     (\<exists>p\<in>set (participants s). rp_user_id p = uid \<and> rp_status p = P_booked \<and>
        (\<exists>r. rides s (rp_ride_id p) = Some r \<and> status r = Ride_open \<and> now \<le> start_date r))"
  unfolding activeBooking_def find_None_iff
  by (auto split: option.splits)

lemma fold_max_ge: "(n::nat) \<le> fold max xs n"
  by (induction xs arbitrary: n) (auto intro: order_trans[OF max.cobounded2])

lemma fold_max_mem: "x \<in> set xs \<Longrightarrow> (x::nat) \<le> fold max xs n"
proof (induction xs arbitrary: n)
  case Nil then show ?case by simp
next
  case (Cons a xs)
  show ?case
  proof (cases "x = a")
    case True
    have "a \<le> max a n" by simp
    also have "\<dots> \<le> fold max xs (max a n)" by (rule fold_max_ge)
    finally show ?thesis using True by simp
  next
    case False
    with Cons show ?thesis by simp
  qed
qed

lemma nextParticipantId_fresh: "p \<in> set ps \<Longrightarrow> rp_id p \<noteq> nextParticipantId ps"
  unfolding nextParticipantId_def
  using fold_max_mem[of "rp_id p" "map rp_id ps" 0] by auto

lemma not_booked_iff: "st \<noteq> P_booked \<longleftrightarrow> st = P_cancelled"
  by (cases st) auto

text \<open>The two ways in which a join succeeds.\<close>

lemma joinRide_Inr_cases:
  assumes "joinRide s now uid rid = Inr (s', p)" and "rides s rid = Some ride"
  shows "status ride = Ride_open \<and> driver_id ride \<noteq> uid \<and> activeBooking s now uid = None \<and>
         int (bookedCount s rid) + 1 < max_passengers ride \<and>
         ((\<exists>existing. findParticipant s rid uid = Some existing \<and> rp_status existing = P_cancelled \<and>
             p = existing\<lparr>rp_status := P_booked,
                   share_fare := total_fare ride / real_of_int (int (bookedCount s rid) + 1 + 1)\<rparr> \<and>
             s' = s\<lparr>participants :=
                      map (\<lambda>q. if rp_id q = rp_id existing
                                then q\<lparr>rp_status := P_booked,
                                      share_fare := total_fare ride / real_of_int (int (bookedCount s rid) + 1 + 1)\<rparr>
                                else q) (participants s)\<rparr>) \<or>
          (findParticipant s rid uid = None \<and>
             p = \<lparr>rp_id = nextParticipantId (participants s), rp_ride_id = rid, rp_user_id = uid,
                  rp_status = P_booked,
                  share_fare = total_fare ride / real_of_int (int (bookedCount s rid) + 1 + 1),
                  booking_time = now\<rparr> \<and>
             s' = s\<lparr>participants := participants s @ [p]\<rparr>))"
  using assms
  by (auto simp: joinRide_def Let_def booked_of_ride not_booked_iff split: if_splits option.splits)

lemma map_update_by_id_other:
  assumes "distinct (map rp_id ps)" and "x \<in> set ps" and "q \<in> set ps" and "q \<noteq> x"
  shows "q \<in> set (map (\<lambda>p. if rp_id p = rp_id x then f p else p) ps)"
proof -
  have "rp_id q \<noteq> rp_id x"
    using assms by (meson distinct_map inj_onD)
  with assms(3) show ?thesis by force
qed

text \<open>A join whose guards pass, on a cancelled row of the caller and on none.\<close>

lemma joinRide_reuse:
  assumes "rides s rid = Some ride" and "status ride = Ride_open" and "driver_id ride \<noteq> uid"
    and "activeBooking s now uid = None"
    and "int (bookedCount s rid) + 1 < max_passengers ride"
    and "findParticipant s rid uid = Some existing" and "rp_status existing = P_cancelled"
  shows "joinRide s now uid rid =
           Inr (s\<lparr>participants :=
                    map (\<lambda>p. if rp_id p = rp_id existing
                              then p\<lparr>rp_status := P_booked,
                                    share_fare := total_fare ride / real (bookedCount s rid + 2)\<rparr>
                              else p) (participants s)\<rparr>,
                existing\<lparr>rp_status := P_booked,
                         share_fare := total_fare ride / real (bookedCount s rid + 2)\<rparr>)"
  using assms by (simp add: joinRide_def Let_def booked_of_ride add.commute)

lemma joinRide_create:
  assumes "rides s rid = Some ride" and "status ride = Ride_open" and "driver_id ride \<noteq> uid"
    and "activeBooking s now uid = None"
    and "int (bookedCount s rid) + 1 < max_passengers ride"
    and "findParticipant s rid uid = None"
  shows "joinRide s now uid rid =
           Inr (s\<lparr>participants := participants s @
                    [\<lparr>rp_id = nextParticipantId (participants s), rp_ride_id = rid,
                      rp_user_id = uid, rp_status = P_booked,
                      share_fare = total_fare ride / real (bookedCount s rid + 2),
                      booking_time = now\<rparr>]\<rparr>,
                \<lparr>rp_id = nextParticipantId (participants s), rp_ride_id = rid,
                 rp_user_id = uid, rp_status = P_booked,
                 share_fare = total_fare ride / real (bookedCount s rid + 2),
                 booking_time = now\<rparr>)"
  using assms by (simp add: joinRide_def Let_def booked_of_ride add.commute)

subsection \<open>The scheduled start\<close>

lemma mod_split: "(x::int) mod (a * b) = (x mod (a * b)) div b * b + x mod b"
  by (metis div_mult_mod_eq mod_mod_cancel dvd_triv_right)

lemma time_of_day_parts:
  "((x::int) mod 86400000) div 3600000 * 3600000 + (x mod 3600000) div 60000 * 60000 +
     (x mod 60000) div 1000 * 1000 + x mod 1000 = x mod 86400000"
proof -
  have a: "x mod 86400000 = (x mod 86400000) div 3600000 * 3600000 + x mod 3600000"
    using mod_split[of x 24 3600000] by simp
  have b: "x mod 3600000 = (x mod 3600000) div 60000 * 60000 + x mod 60000"
    using mod_split[of x 60 60000] by simp
  have c: "x mod 60000 = (x mod 60000) div 1000 * 1000 + x mod 1000"
    using mod_split[of x 60 1000] by simp
  from a b c show ?thesis by linarith
qed

lemma rideStartDateTime_eq:
  "newDate tz (localDay tz (start_date ride))
      (getHours tz (start_time ride)) (getMinutes tz (start_time ride))
      (getSeconds tz (start_time ride)) (getMilliseconds tz (start_time ride)) =
   scheduledStart tz ride"
  unfolding newDate_def getHours_def getMinutes_def getSeconds_def getMilliseconds_def
    scheduledStart_def
  using time_of_day_parts[of "start_time ride + tz"] by linarith

subsection \<open>Creating\<close>

lemma vehicleTypeOf_Some_iff:
  "vehicleTypeOf v \<noteq> None \<longleftrightarrow> v \<in> {''car'', ''suv'', ''auto''}"
  by simp

lemma rideCreateSchema_max_passengers:
  "rideCreateSchema b \<Longrightarrow>
     b_max_passengers b \<in> \<int> \<and> 1 \<le> b_max_passengers b \<and> b_max_passengers b \<le> 6"
  unfolding rideCreateSchema_def by (metis Ints_of_int)

subsection \<open>The participant's branch of a cancellation\<close>

lemma find_map_same:
  assumes "\<And>x. P (f x) = P x"
  shows "find P (map f xs) = map_option f (find P xs)"
  by (induction xs) (simp_all add: assms)

text \<open>Marking a row as cancelled does not change which row a lookup finds.\<close>

lemma find_after_cancel:
  assumes "findParticipant s rid uid = Some rp"
  shows "find (\<lambda>p. rp_ride_id p = rid \<and> rp_user_id p = uid)
           (map (\<lambda>p. if rp_id p = i then p\<lparr>rp_status := P_cancelled\<rparr> else p) (participants s)) =
         Some (if rp_id rp = i then rp\<lparr>rp_status := P_cancelled\<rparr> else rp)"
proof -
  have "find (\<lambda>p. rp_ride_id p = rid \<and> rp_user_id p = uid)
           (map (\<lambda>p. if rp_id p = i then p\<lparr>rp_status := P_cancelled\<rparr> else p) (participants s)) =
        map_option (\<lambda>p. if rp_id p = i then p\<lparr>rp_status := P_cancelled\<rparr> else p)
          (find (\<lambda>p. rp_ride_id p = rid \<and> rp_user_id p = uid) (participants s))"
    by (rule find_map_same) simp
  then show ?thesis
    using assms by (simp add: findParticipant_def)
qed

lemma only_booked_row:
  assumes "findParticipant s rid uid = Some rp" and "rp_status rp = P_booked"
    and "bookedCount s rid = 1"
  shows "filter (\<lambda>p. rp_ride_id p = rid \<and> rp_status p = P_booked) (participants s) = [rp]"
proof -
  let ?xs = "filter (\<lambda>p. rp_ride_id p = rid \<and> rp_status p = P_booked) (participants s)"
  have "rp \<in> set ?xs"
    using find_participant_ride[OF assms(1)] assms(2) by simp
  moreover have "length ?xs = 1"
    using assms(3) by (simp add: bookedCount_def)
  ultimately show ?thesis
    by (cases ?xs) auto
qed

lemma none_booked_after_cancel:
  assumes "filter (\<lambda>p. rp_ride_id p = rid \<and> rp_status p = P_booked) (participants s) = [rp]"
  shows "bookedCount (updateParticipant s (rp_id rp) (\<lambda>p. p\<lparr>rp_status := P_cancelled\<rparr>)) rid = 0"
proof -
  have "\<not> (rp_ride_id p = rid \<and> rp_status p = P_booked)"
    if "p \<in> set (participants s)" "rp_id p \<noteq> rp_id rp" for p
  proof
    assume "rp_ride_id p = rid \<and> rp_status p = P_booked"
    with that(1) have "p \<in> set (filter (\<lambda>p. rp_ride_id p = rid \<and> rp_status p = P_booked) (participants s))"
      by simp
    with assms have "p = rp" by simp
    with that(2) show False by simp
  qed
  then show ?thesis
    by (auto simp: bookedCount_def filter_empty_conv)
qed

text \<open>A cancellation on a row that is cancelled already, once and many times.\<close>

lemma cancel_again_step:
  assumes "findParticipant s rid uid = Some rp" and "rp_status rp = P_cancelled"
    and "rides s rid = Some ride" and "users s uid = Some u"
  shows "\<exists>s' pen u' ride'. cancelRide tz s now uid rid = Inr (s', ParticipantCancelled pen) \<and>
           cancellations s' =
             cancellations s @ [\<lparr>rc_ride_id = rid, rc_user_id = uid, cancelled_at = now\<rparr>] \<and>
           users s' uid = Some u' \<and>
           cancellation_count u' = cancellation_count u + 1 \<and>
           (credibility_score u' = credibility_score u - 5 \<or>
            credibility_score u' = credibility_score u - 2) \<and>
           findParticipant s' rid uid = Some rp \<and> rides s' rid = Some ride'"
proof -
  have rid: "rp_ride_id rp = rid"
    using find_participant_ride[OF assms(1)] by simp
  let ?pen = "if diffHours tz ride now < 3
              then max 0 (Math_round (share_fare rp * 0.25)) else 0"
  obtain s' where tx: "participantCancelTx s now uid rid rp ?pen = Some s'"
    and us: "users s' = (users s)(uid \<mapsto> u\<lparr>cancellation_count := cancellation_count u + 1,
              credibility_score := credibility_score u - (if ?pen > 0 then 5 else 2)\<rparr>)"
    and ps: "participants s' =
             map (\<lambda>p. if rp_id p = rp_id rp then p\<lparr>rp_status := P_cancelled\<rparr> else p)
               (participants s)"
    and cs: "cancellations s' =
             cancellations s @ [\<lparr>rc_ride_id = rid, rc_user_id = uid, cancelled_at = now\<rparr>]"
    and rs: "rides s' =
             (if bookedCount (updateParticipant s (rp_id rp) (\<lambda>p. p\<lparr>rp_status := P_cancelled\<rparr>)) rid = 0
              then (rides s)(rid \<mapsto> ride\<lparr>status := Ride_open\<rparr>) else rides s)"
    using participantCancelTx_Some[OF assms(3,4)] by blast
  have c: "cancelRide tz s now uid rid = Inr (s', ParticipantCancelled ?pen)"
    using assms(1,3) rid tx by (simp add: cancelRide_def Let_def)
  have same: "rp\<lparr>rp_status := P_cancelled\<rparr> = rp"
    using assms(2) by simp
  have f: "findParticipant s' rid uid = Some rp"
    using find_after_cancel[OF assms(1), of "rp_id rp"] ps same by (simp add: findParticipant_def)
  have r: "\<exists>ride'. rides s' rid = Some ride'"
    using rs assms(3) by simp
  let ?u = "u\<lparr>cancellation_count := cancellation_count u + 1,
              credibility_score := credibility_score u - (if ?pen > 0 then 5 else 2)\<rparr>"
  have u: "users s' uid = Some ?u" using us by simp
  have "cancellation_count ?u = cancellation_count u + 1 \<and>
        (credibility_score ?u = credibility_score u - 5 \<or>
         credibility_score ?u = credibility_score u - 2)"
    by simp
  with c cs u f r show ?thesis by blast
qed

lemma cancel_again_many:
  assumes "findParticipant s rid uid = Some rp" and "rp_status rp = P_cancelled"
    and "rides s rid = Some ride" and "users s uid = Some u"
  shows "length (cancellations (handleAll tz s (map (\<lambda>t. CancelRide t uid rid) ts))) =
           length (cancellations s) + length ts \<and>
         (\<exists>u'. users (handleAll tz s (map (\<lambda>t. CancelRide t uid rid) ts)) uid = Some u' \<and>
               cancellation_count u' = cancellation_count u + int (length ts) \<and>
               credibility_score u' \<le> credibility_score u - 2 * real (length ts))"
  using assms
proof (induction ts arbitrary: s ride u)
  case Nil
  then show ?case by simp
next
  case (Cons t ts)
  obtain s' pen u' ride' where
    c: "cancelRide tz s t uid rid = Inr (s', ParticipantCancelled pen)"
    and cs: "cancellations s' =
             cancellations s @ [\<lparr>rc_ride_id = rid, rc_user_id = uid, cancelled_at = t\<rparr>]"
    and u: "users s' uid = Some u'" "cancellation_count u' = cancellation_count u + 1"
      "credibility_score u' = credibility_score u - 5 \<or>
       credibility_score u' = credibility_score u - 2"
    and f: "findParticipant s' rid uid = Some rp" and r: "rides s' rid = Some ride'"
    using cancel_again_step[OF Cons.prems, of tz t] by blast
  have h: "handle tz s (CancelRide t uid rid) = s'"
    using c by simp
  from Cons.IH[OF f Cons.prems(2) r u(1)] obtain u'' where
    l: "length (cancellations (handleAll tz s' (map (\<lambda>t. CancelRide t uid rid) ts))) =
          length (cancellations s') + length ts"
    and u2: "users (handleAll tz s' (map (\<lambda>t. CancelRide t uid rid) ts)) uid = Some u''"
      "cancellation_count u'' = cancellation_count u' + int (length ts)"
      "credibility_score u'' \<le> credibility_score u' - 2 * real (length ts)"
    by blast
  have "credibility_score u' \<le> credibility_score u - 2" using u(3) by auto
  with u2(3) have "credibility_score u'' \<le> credibility_score u - 2 * real (length (t # ts))"
    by simp
  with l u2 u(2) cs h show ?case by simp
qed

subsection \<open>The invariant of the store\<close>

lemma wellFormed_iff:
  "wellFormed s \<longleftrightarrow>
     distinct (map rp_id (participants s)) \<and>
     (\<forall>p\<in>set (participants s). rides s (rp_ride_id p) \<noteq> None)"
  by (simp add: wellFormed_def list_all_iff)

text \<open>
  A step keeps the invariant when it keeps the keys, and every ride after it either was
  there before with the same capacity and no fewer booked rows, or has room by itself.
\<close>

lemma invariant_step:
  assumes "wellFormed s" and "capacityOk s"
    and "distinct (map rp_id (participants s'))"
    and "\<And>p. p \<in> set (participants s') \<Longrightarrow> rides s' (rp_ride_id p) \<noteq> None"
    and "\<And>rid r'. rides s' rid = Some r' \<Longrightarrow>
           (\<exists>r. rides s rid = Some r \<and> max_passengers r' = max_passengers r \<and>
                bookedCount s' rid \<le> bookedCount s rid) \<or>
           int (bookedCount s' rid) + 1 \<le> max_passengers r'"
  shows "wellFormed s' \<and> capacityOk s'"
proof -
  have "int (bookedCount s' rid) + 1 \<le> max_passengers r'" if "rides s' rid = Some r'" for rid r'
    using assms(5)[OF that] assms(2) unfolding capacityOk_def by fastforce
  then show ?thesis
    using assms(3,4) by (auto simp: wellFormed_iff capacityOk_def)
qed

lemma count_filter_map_le:
  assumes "\<And>x. P (g x) \<Longrightarrow> P x"
  shows "length (filter P (map g xs)) \<le> length (filter P xs)"
  by (induction xs) (auto dest: assms)

lemma count_filter_filter_le: "length (filter P (filter Q xs)) \<le> length (filter P xs)"
  by (induction xs) auto

lemma update_by_id_absent:
  "\<forall>p\<in>set ps. rp_id p \<noteq> i \<Longrightarrow> map (\<lambda>p. if rp_id p = i then f p else p) ps = ps"
  by (induction ps) auto

lemma count_update_by_id:
  assumes "distinct (map rp_id ps)" and "x \<in> set ps"
  shows "length (filter P (map (\<lambda>p. if rp_id p = rp_id x then f p else p) ps)) \<le>
         length (filter P ps) + (if P (f x) then 1 else 0)"
  using assms
proof (induction ps)
  case Nil
  then show ?case by simp
next
  case (Cons a ps)
  show ?case
  proof (cases "rp_id a = rp_id x")
    case True
    have notin: "\<forall>p\<in>set ps. rp_id p \<noteq> rp_id x"
      using Cons.prems(1) True by (metis distinct.simps(2) image_eqI list.simps(9) set_map)
    then have "x \<notin> set ps" by blast
    with Cons.prems(2) have "x = a" by simp
    then show ?thesis
      using update_by_id_absent[OF notin, of f] by simp
  next
    case False
    then have "x \<in> set ps" using Cons.prems(2) by auto
    with Cons.IH Cons.prems(1) False show ?thesis by (auto split: if_splits)
  qed
qed

lemma bookedCount_participants:
  "participants s' = participants s \<Longrightarrow> bookedCount s' rid = bookedCount s rid"
  by (simp add: bookedCount_def)

lemma startRide_keeps_invariant:
  assumes "wellFormed s" and "capacityOk s" and "startRide tz s now uid rid = Inr (s', r)"
  shows "wellFormed s' \<and> capacityOk s'"
proof -
  obtain ride where ride: "rides s rid = Some ride"
    and s': "s' = s\<lparr>rides := (rides s)(rid \<mapsto> ride\<lparr>status := Ride_active\<rparr>)\<rparr>"
    using assms(3) by (auto simp: startRide_def Let_def split: option.splits if_splits)
  show ?thesis
  proof (rule invariant_step[OF assms(1,2)])
    show "distinct (map rp_id (participants s'))"
      using assms(1) s' by (simp add: wellFormed_iff)
    show "rides s' (rp_ride_id p) \<noteq> None" if "p \<in> set (participants s')" for p
      using assms(1) s' that by (simp add: wellFormed_iff)
    show "(\<exists>r. rides s q = Some r \<and> max_passengers r' = max_passengers r \<and>
                bookedCount s' q \<le> bookedCount s q) \<or>
           int (bookedCount s' q) + 1 \<le> max_passengers r'"
      if "rides s' q = Some r'" for q r'
      using that ride s' by (auto simp: bookedCount_def split: if_splits)
  qed
qed

lemma completeRide_keeps_invariant:
  assumes "wellFormed s" and "capacityOk s" and "completeRide s uid rid = Inr (s', r)"
  shows "wellFormed s' \<and> capacityOk s'"
proof -
  obtain ride where ride: "rides s rid = Some ride"
    and s': "s' = s\<lparr>rides := (rides s)(rid \<mapsto> ride\<lparr>status := Ride_completed\<rparr>)\<rparr>"
    using assms(3) by (auto simp: completeRide_def split: option.splits if_splits)
  show ?thesis
  proof (rule invariant_step[OF assms(1,2)])
    show "distinct (map rp_id (participants s'))"
      using assms(1) s' by (simp add: wellFormed_iff)
    show "rides s' (rp_ride_id p) \<noteq> None" if "p \<in> set (participants s')" for p
      using assms(1) s' that by (simp add: wellFormed_iff)
    show "(\<exists>r. rides s q = Some r \<and> max_passengers r' = max_passengers r \<and>
                bookedCount s' q \<le> bookedCount s q) \<or>
           int (bookedCount s' q) + 1 \<le> max_passengers r'"
      if "rides s' q = Some r'" for q r'
      using that ride s' by (auto simp: bookedCount_def split: if_splits)
  qed
qed

lemma createRide_keeps_invariant:
  assumes "wellFormed s" and "capacityOk s"
  shows "wellFormed (fst (createRide s uid newId b)) \<and> capacityOk (fst (createRide s uid newId b))"
proof -
  let ?s' = "fst (createRide s uid newId b)"
  have ps: "participants ?s' = participants s"
    by (simp add: createRide_def Let_def split: option.splits)
  consider (same) "rides ?s' = rides s"
    | (new) ride where "rides s newId = None" "rides ?s' = (rides s)(newId \<mapsto> ride)"
        "1 \<le> max_passengers ride"
  proof (cases "rideCreateSchema b \<and> b_start_date b \<noteq> None \<and> b_start_time b \<noteq> None \<and>
                rides s newId = None")
    case True
    then obtain v sd st where v: "vehicleTypeOf (b_vehicle_type b) = Some v"
      and d: "b_start_date b = Some sd" "b_start_time b = Some st"
      by (auto simp: rideCreateSchema_def)
    let ?ride = "\<lparr>driver_id = uid, vehicle_id = uid,
                  start_location = b_start_location b, end_location = b_end_location b,
                  start_date = sd, start_time = st, total_fare = b_total_fare b,
                  max_passengers = \<lfloor>b_max_passengers b\<rfloor>, status = Ride_open\<rparr>"
    have "1 \<le> max_passengers ?ride"
      using True by (simp add: rideCreateSchema_def le_floor_iff)
    moreover have "rides ?s' = (rides s)(newId \<mapsto> ?ride)"
      using True v d by (simp add: createRide_def Let_def split: option.splits)
    ultimately show ?thesis
      using True new[of ?ride] by blast
  next
    case False
    then have "rides ?s' = rides s"
      by (auto simp: createRide_def Let_def split: option.splits)
    then show ?thesis by (rule same)
  qed
  then show ?thesis
  proof cases
    case same
    show ?thesis
    proof (rule invariant_step[OF assms(1,2)])
      show "distinct (map rp_id (participants ?s'))"
        using assms(1) ps by (simp add: wellFormed_iff)
      show "rides ?s' (rp_ride_id p) \<noteq> None" if "p \<in> set (participants ?s')" for p
        using assms(1) ps same that by (simp add: wellFormed_iff)
      show "(\<exists>r. rides s q = Some r \<and> max_passengers r' = max_passengers r \<and>
                bookedCount ?s' q \<le> bookedCount s q) \<or>
           int (bookedCount ?s' q) + 1 \<le> max_passengers r'"
        if "rides ?s' q = Some r'" for q r'
        using that same bookedCount_participants[OF ps] by simp
    qed
  next
    case new
    have none: "bookedCount s newId = 0"
      using assms(1) new(1) by (auto simp: bookedCount_def wellFormed_iff filter_empty_conv)
    show ?thesis
    proof (rule invariant_step[OF assms(1,2)])
      show "distinct (map rp_id (participants ?s'))"
        using assms(1) ps by (simp add: wellFormed_iff)
      show "rides ?s' (rp_ride_id p) \<noteq> None" if "p \<in> set (participants ?s')" for p
        using assms(1) ps new(2) that by (simp add: wellFormed_iff)
      show "(\<exists>r. rides s q = Some r \<and> max_passengers r' = max_passengers r \<and>
                bookedCount ?s' q \<le> bookedCount s q) \<or>
           int (bookedCount ?s' q) + 1 \<le> max_passengers r'"
        if "rides ?s' q = Some r'" for q r'
        using that new none bookedCount_participants[OF ps] by (auto split: if_splits)
    qed
  qed
qed

lemma ids_kept:
  assumes "\<And>p. rp_id (g p) = rp_id p"
  shows "map rp_id (map g xs) = map rp_id xs"
  by (simp add: assms)

lemma distinct_ids_kept:
  assumes "\<And>p. rp_id (g p) = rp_id p"
  shows "distinct (map rp_id (map g xs)) \<longleftrightarrow> distinct (map rp_id xs)"
  by (simp only: ids_kept[of g, OF assms])

lemma joinRide_keeps_invariant:
  assumes "wellFormed s" and "capacityOk s" and "joinRide s now uid rid = Inr (s', p)"
  shows "wellFormed s' \<and> capacityOk s'"
proof -
  obtain ride where ride: "rides s rid = Some ride"
    using assms(3) by (auto simp: joinRide_def split: option.splits)
  note j = joinRide_Inr_cases[OF assms(3) ride]
  have room: "int (bookedCount s rid) + 1 < max_passengers ride" using j by simp
  have d: "distinct (map rp_id (participants s))"
    and fk: "\<And>q. q \<in> set (participants s) \<Longrightarrow> rides s (rp_ride_id q) \<noteq> None"
    using assms(1) by (auto simp: wellFormed_iff)
  from j consider
    (reuse) existing x where "findParticipant s rid uid = Some existing"
      "s' = s\<lparr>participants :=
                map (\<lambda>q. if rp_id q = rp_id existing
                          then q\<lparr>rp_status := P_booked, share_fare := x\<rparr> else q)
                  (participants s)\<rparr>"
    | (create) "s' = s\<lparr>participants := participants s @ [p]\<rparr>"
      "rp_id p = nextParticipantId (participants s)" "rp_ride_id p = rid"
    by auto
  then show ?thesis
  proof cases
    case reuse
    note ex = find_participant_ride[OF reuse(1)]
    let ?g = "\<lambda>q. if rp_id q = rp_id existing
                   then q\<lparr>rp_status := P_booked, share_fare := x\<rparr> else q"
    have gid: "rp_id (?g q) = rp_id q" for q by simp
    have ps': "participants s' = map ?g (participants s)" using reuse(2) by simp
    have cnt: "bookedCount s' q \<le> bookedCount s q + (if q = rid then 1 else 0)" for q
    proof -
      have "length (filter (\<lambda>p. rp_ride_id p = q \<and> rp_status p = P_booked)
                (map (\<lambda>p. if rp_id p = rp_id existing
                           then p\<lparr>rp_status := P_booked, share_fare := x\<rparr> else p)
                   (participants s))) \<le>
            length (filter (\<lambda>p. rp_ride_id p = q \<and> rp_status p = P_booked) (participants s)) +
              (if rp_ride_id (existing\<lparr>rp_status := P_booked, share_fare := x\<rparr>) = q \<and>
                  rp_status (existing\<lparr>rp_status := P_booked, share_fare := x\<rparr>) = P_booked
               then 1 else 0)"
        using ex by (intro count_update_by_id[OF d]) simp
      then show ?thesis using ex reuse(2) by (cases "q = rid") (auto simp: bookedCount_def)
    qed
    show ?thesis
    proof (rule invariant_step[OF assms(1,2)])
      show "distinct (map rp_id (participants s'))"
        unfolding ps' distinct_ids_kept[of ?g, OF gid] by (rule d)
      show "rides s' (rp_ride_id q) \<noteq> None" if "q \<in> set (participants s')" for q
      proof -
        from that obtain q0 where "q0 \<in> set (participants s)" "q = ?g q0"
          unfolding ps' by auto
        then have "rides s (rp_ride_id q) \<noteq> None"
          using fk[of q0] by (simp split: if_splits)
        then show ?thesis using reuse(2) by simp
      qed
      show "(\<exists>r. rides s q = Some r \<and> max_passengers r' = max_passengers r \<and>
                bookedCount s' q \<le> bookedCount s q) \<or>
           int (bookedCount s' q) + 1 \<le> max_passengers r'"
        if "rides s' q = Some r'" for q r'
      proof (cases "q = rid")
        case True
        then have "r' = ride" using that ride reuse(2) by simp
        then show ?thesis using cnt[of q] True room by simp
      next
        case False
        then show ?thesis using cnt[of q] that reuse(2) by simp
      qed
    qed
  next
    case create
    have fresh: "rp_id p \<notin> set (map rp_id (participants s))"
    proof
      assume "rp_id p \<in> set (map rp_id (participants s))"
      then obtain x where x: "x \<in> set (participants s)" "rp_id x = rp_id p" by auto
      from nextParticipantId_fresh[OF x(1)] x(2) create(2) show False by simp
    qed
    have cnt: "bookedCount s' q \<le> bookedCount s q + (if q = rid then 1 else 0)" for q
      using create(1,3) by (simp add: bookedCount_def)
    show ?thesis
    proof (rule invariant_step[OF assms(1,2)])
      show "distinct (map rp_id (participants s'))"
        using d fresh create(1) by simp
      show "rides s' (rp_ride_id q) \<noteq> None" if "q \<in> set (participants s')" for q
        using that fk create(1,3) ride by auto
      show "(\<exists>r. rides s q = Some r \<and> max_passengers r' = max_passengers r \<and>
                bookedCount s' q \<le> bookedCount s q) \<or>
           int (bookedCount s' q) + 1 \<le> max_passengers r'"
        if "rides s' q = Some r'" for q r'
      proof (cases "q = rid")
        case True
        then have "r' = ride" using that ride create(1) by simp
        then show ?thesis using cnt[of q] True room by simp
      next
        case False
        then show ?thesis using cnt[of q] that create(1) by simp
      qed
    qed
  qed
qed

text \<open>What a successful cancellation does to the rides and the participants.\<close>

lemma cancelRide_Inr_cases:
  assumes "cancelRide tz s now uid rid = Inr (s', res)"
  shows "\<exists>ride. rides s rid = Some ride \<and>
           ((\<exists>i. participants s' =
                   map (\<lambda>p. if rp_id p = i then p\<lparr>rp_status := P_cancelled\<rparr> else p)
                     (participants s)) \<or>
            (\<exists>i. participants s' = filter (\<lambda>p. rp_id p \<noteq> i) (participants s)) \<or>
            participants s' = participants s) \<and>
           (rides s' = rides s \<or>
            (\<exists>ride'. rides s' = (rides s)(rid \<mapsto> ride') \<and>
                     max_passengers ride' = max_passengers ride))"
proof (cases "findParticipant s rid uid")
  case None
  then obtain ride where ride: "rides s rid = Some ride"
    using assms by (auto simp: cancelRide_def split: option.splits)
  obtain pen where tx: "driverCancelTx s now uid rid pen (bookedByTime s rid) = Some s'"
    using assms None ride by (auto simp: cancelRide_def Let_def split: option.splits if_splits)
  then obtain u where u: "users s uid = Some u"
    by (auto simp: driverCancelTx_def updateUser_def Let_def split: option.splits)
  show ?thesis
  proof (cases "bookedByTime s rid")
    case Nil
    then show ?thesis
      using driverCancelTx_none_booked[OF ride u, of now pen] tx ride by auto
  next
    case (Cons p ps)
    then show ?thesis
      using driverCancelTx_promote[OF ride u, of now pen p ps] tx ride by auto
  qed
next
  case (Some rp)
  have rid: "rp_ride_id rp = rid"
    using find_participant_ride[OF Some] by simp
  then obtain ride where ride: "rides s rid = Some ride"
    using assms Some by (auto simp: cancelRide_def split: option.splits)
  obtain pen where tx: "participantCancelTx s now uid rid rp pen = Some s'"
    using assms Some ride rid by (auto simp: cancelRide_def Let_def split: option.splits)
  then obtain u where u: "users s uid = Some u"
    by (auto simp: participantCancelTx_def updateUser_def updateRide_def Let_def
        split: option.splits if_splits)
  show ?thesis
    using participantCancelTx_Some[OF ride u, of now rp pen] tx ride
    by (auto split: if_splits)
qed

lemma cancelRide_keeps_invariant:
  assumes "wellFormed s" and "capacityOk s" and "cancelRide tz s now uid rid = Inr (s', res)"
  shows "wellFormed s' \<and> capacityOk s'"
proof -
  from cancelRide_Inr_cases[OF assms(3)] obtain ride where ride: "rides s rid = Some ride"
    and ps: "(\<exists>i. participants s' =
                   map (\<lambda>p. if rp_id p = i then p\<lparr>rp_status := P_cancelled\<rparr> else p)
                     (participants s)) \<or>
            (\<exists>i. participants s' = filter (\<lambda>p. rp_id p \<noteq> i) (participants s)) \<or>
            participants s' = participants s"
    and rs: "rides s' = rides s \<or>
            (\<exists>ride'. rides s' = (rides s)(rid \<mapsto> ride') \<and>
                     max_passengers ride' = max_passengers ride)"
    by blast
  have d: "distinct (map rp_id (participants s))"
    and fk: "\<And>q. q \<in> set (participants s) \<Longrightarrow> rides s (rp_ride_id q) \<noteq> None"
    using assms(1) by (auto simp: wellFormed_iff)
  have dom: "rides s' q \<noteq> None" if "rides s q \<noteq> None" for q
    using rs that by auto
  have facts: "distinct (map rp_id (participants s')) \<and>
      (\<forall>q\<in>set (participants s'). \<exists>q0\<in>set (participants s). rp_ride_id q0 = rp_ride_id q) \<and>
      (\<forall>q. bookedCount s' q \<le> bookedCount s q)"
  proof -
    from ps consider
      (mark) i where "participants s' =
          map (\<lambda>p. if rp_id p = i then p\<lparr>rp_status := P_cancelled\<rparr> else p) (participants s)"
      | (delete) i where "participants s' = filter (\<lambda>p. rp_id p \<noteq> i) (participants s)"
      | (same) "participants s' = participants s"
      by blast
    then show ?thesis
    proof cases
      case mark
      let ?g = "\<lambda>p. if rp_id p = i then p\<lparr>rp_status := P_cancelled\<rparr> else p"
      have gid: "rp_id (?g p) = rp_id p" for p by simp
      have a: "distinct (map rp_id (participants s'))"
        unfolding mark distinct_ids_kept[of ?g, OF gid] by (rule d)
      have b: "\<exists>q0\<in>set (participants s). rp_ride_id q0 = rp_ride_id q"
        if "q \<in> set (participants s')" for q
      proof -
        from that obtain q0 where "q0 \<in> set (participants s)" "q = ?g q0"
          unfolding mark by auto
        then show ?thesis by (intro bexI[of _ q0]) (simp_all split: if_splits)
      qed
      have c: "bookedCount s' q \<le> bookedCount s q" for q
        unfolding bookedCount_def mark
        by (rule count_filter_map_le) (simp split: if_splits)
      from a b c show ?thesis by blast
    next
      case delete
      have a: "distinct (map rp_id (participants s'))"
        unfolding delete using d by (rule distinct_map_filter)
      have c: "bookedCount s' q \<le> bookedCount s q" for q
        unfolding bookedCount_def delete by (rule count_filter_filter_le)
      from a c delete show ?thesis by auto
    next
      case same
      then show ?thesis using d by (auto simp: bookedCount_def)
    qed
  qed
  show ?thesis
  proof (rule invariant_step[OF assms(1,2)])
    show "distinct (map rp_id (participants s'))" using facts by simp
    show "rides s' (rp_ride_id q) \<noteq> None" if "q \<in> set (participants s')" for q
    proof -
      from facts that obtain q0 where "q0 \<in> set (participants s)" "rp_ride_id q0 = rp_ride_id q"
        by blast
      then show ?thesis using fk[of q0] dom by simp
    qed
    show "(\<exists>r. rides s q = Some r \<and> max_passengers r' = max_passengers r \<and>
                bookedCount s' q \<le> bookedCount s q) \<or>
           int (bookedCount s' q) + 1 \<le> max_passengers r'"
      if "rides s' q = Some r'" for q r'
    proof -
      have c: "bookedCount s' q \<le> bookedCount s q" using facts by simp
      from rs show ?thesis
      proof
        assume "rides s' = rides s"
        then show ?thesis using that c by simp
      next
        assume "\<exists>ride'. rides s' = (rides s)(rid \<mapsto> ride') \<and>
                     max_passengers ride' = max_passengers ride"
        then obtain ride' where r': "rides s' = (rides s)(rid \<mapsto> ride')"
          "max_passengers ride' = max_passengers ride" by blast
        show ?thesis
        proof (cases "q = rid")
          case True
          then have "r' = ride'" using that r'(1) by simp
          then show ?thesis using True ride r'(2) c by simp
        next
          case False
          then show ?thesis using that r'(1) c by simp
        qed
      qed
    qed
  qed
qed

text \<open>What the creation of a ride does to the rides and the participants.\<close>

lemma createRide_Inr:
  assumes "createRide s uid newId b = (s', Inr ride)"
  shows "rides s newId = None \<and> rides s' = (rides s)(newId \<mapsto> ride) \<and>
         participants s' = participants s \<and> 1 \<le> max_passengers ride"
  using assms
  by (auto simp: createRide_def Let_def rideCreateSchema_def le_floor_iff
      split: if_splits option.splits)

lemma handle_keeps_invariant:
  assumes "wellFormed s" and "capacityOk s"
  shows "wellFormed (handle tz s q) \<and> capacityOk (handle tz s q)"
proof (cases q)
  case (CreateRide uid newId b)
  then show ?thesis using createRide_keeps_invariant[OF assms] by simp
next
  case (JoinRide now uid rid)
  then show ?thesis
    using joinRide_keeps_invariant[OF assms] assms by (auto split: sum.splits)
next
  case (StartRide now uid rid)
  then show ?thesis
    using startRide_keeps_invariant[OF assms] assms by (auto split: sum.splits)
next
  case (CompleteRide uid rid)
  then show ?thesis
    using completeRide_keeps_invariant[OF assms] assms by (auto split: sum.splits)
next
  case (CancelRide now uid rid)
  then show ?thesis
    using cancelRide_keeps_invariant[OF assms] assms by (auto split: sum.splits)
qed

lemma handleAll_keeps_invariant:
  "wellFormed s \<Longrightarrow> capacityOk s \<Longrightarrow>
     wellFormed (handleAll tz s qs) \<and> capacityOk (handleAll tz s qs)"
proof (induction qs arbitrary: s)
  case Nil
  then show ?case by simp
next
  case (Cons q qs)
  then show ?case using handle_keeps_invariant[of s tz q] by simp
qed

section \<open>The claims\<close>

subsection \<open>C1: the credibility penalty of a participant's cancellation\<close>

text \<open>
  C1, as stated, fails: a participant who cancels less than 3 hours before the start
  loses 2 points, not 5, when a quarter of the share rounds to 0. Here the share is 1
  and the cancellation comes one hour before the start.
\<close>

theorem late_cancel_small_share_counterexample:
  "diffHours 0 (exRide ''d1'' 2 4 Ride_open) 903600000 < 3 \<and>
   (case cancelRide 0
           (exStore [''r1'' \<mapsto> exRide ''d1'' 2 4 Ride_open]
              [exBooking 1 ''r1'' ''u1'' P_booked 1 1000])
           903600000 ''u1'' ''r1'' of
      Inl e \<Rightarrow> None
    | Inr (s', r) \<Rightarrow> map_option credibility_score (users s' ''u1'')) = Some (100 - 2)"
  by (simp add: cancelRide_def participantCancelTx_def findParticipant_def ex_defs date_defs
      Math_round_def updateParticipant_def logCancellation_def bookedCount_def
      updateRide_def updateUser_def)

text \<open>
  C1, amended: a cancellation by a caller with a participant record takes 5 points of
  credibility when \<open>diffHours < 3\<close> and the share is at least 2 (so that a quarter of it
  rounds to a positive penalty), and 2 points otherwise; in both cases
  \<open>cancellation_count\<close> grows by 1.
\<close>

theorem participant_cancel_decrement:
  assumes "findParticipant s rid uid = Some rp"
    and "rides s rid = Some ride"
    and "users s uid = Some u"
  shows "\<exists>s' pen. cancelRide tz s now uid rid = Inr (s', ParticipantCancelled pen) \<and>
           users s' uid =
             Some (u\<lparr>cancellation_count := cancellation_count u + 1,
                     credibility_score := credibility_score u -
                       (if diffHours tz ride now < 3 \<and> 2 \<le> share_fare rp then 5 else 2)\<rparr>)"
proof -
  have rid: "rp_ride_id rp = rid"
    using assms(1) find_participant_ride by blast
  let ?pen = "if diffHours tz ride now < 3
              then max 0 (Math_round (share_fare rp * 0.25)) else 0"
  obtain s' where tx: "participantCancelTx s now uid rid rp ?pen = Some s'"
    and us: "users s' = (users s)(uid \<mapsto> u\<lparr>cancellation_count := cancellation_count u + 1,
              credibility_score := credibility_score u - (if ?pen > 0 then 5 else 2)\<rparr>)"
    using participantCancelTx_Some[OF assms(2,3)] by blast
  have pen: "?pen > 0 \<longleftrightarrow> diffHours tz ride now < 3 \<and> 2 \<le> share_fare rp"
    using round_quarter_pos[of "share_fare rp"] by auto
  have "cancelRide tz s now uid rid = Inr (s', ParticipantCancelled ?pen)"
    using assms rid tx by (simp add: cancelRide_def Let_def)
  moreover have "users s' uid =
      Some (u\<lparr>cancellation_count := cancellation_count u + 1,
              credibility_score := credibility_score u -
                (if diffHours tz ride now < 3 \<and> 2 \<le> share_fare rp then 5 else 2)\<rparr>)"
    using us pen by simp
  ultimately show ?thesis by blast
qed

theorem participant_cancel_decrement_witness:
  "\<exists>s' pen.
     cancelRide 0
       (exStore [''r1'' \<mapsto> exRide ''d1'' 300 4 Ride_open]
          [exBooking 1 ''r1'' ''u1'' P_booked 150 1000])
       903600000 ''u1'' ''r1'' = Inr (s', ParticipantCancelled pen) \<and>
     users s' ''u1'' = Some \<lparr>credibility_score = 95, cancellation_count = 1\<rparr>"
proof -
  let ?s = "exStore [''r1'' \<mapsto> exRide ''d1'' 300 4 Ride_open]
              [exBooking 1 ''r1'' ''u1'' P_booked 150 1000]"
  have h1: "findParticipant ?s ''r1'' ''u1'' = Some (exBooking 1 ''r1'' ''u1'' P_booked 150 1000)"
    by (simp add: findParticipant_def ex_defs)
  have h2: "rides ?s ''r1'' = Some (exRide ''d1'' 300 4 Ride_open)"
    by (simp add: ex_defs)
  have h3: "users ?s ''u1'' = Some exUser"
    by (simp add: ex_defs)
  have late: "diffHours 0 (exRide ''d1'' 300 4 Ride_open) 903600000 < 3"
    by (simp add: ex_defs date_defs)
  show ?thesis
    using participant_cancel_decrement[OF h1 h2 h3, of 0 903600000] late
    by (simp add: ex_defs)
qed

subsection \<open>C2: the driver cancels\<close>

text \<open>
  C2: when the caller has no participant record on the ride and is its driver, the
  cancellation succeeds. If some participant of the ride is booked, one with the
  earliest \<open>booking_time\<close> becomes the driver, the rows with that participant's id are
  deleted, the ride is set to open and the result reports a transfer. If none is
  booked, the ride is set to cancelled and no transfer is reported. The driver's user
  row is assumed to exist, as the update of the credibility score needs it.
\<close>

theorem driver_cancel_succession:
  assumes "findParticipant s rid uid = None"
    and "rides s rid = Some ride"
    and "driver_id ride = uid"
    and "users s uid = Some u"
  shows "(bookedCount s rid = 0 \<longrightarrow>
            (\<exists>s'. cancelRide tz s now uid rid = Inr (s', DriverCancelled False) \<and>
                  rides s' rid = Some (ride\<lparr>status := Ride_cancelled\<rparr>) \<and>
                  participants s' = participants s)) \<and>
         (0 < bookedCount s rid \<longrightarrow>
            (\<exists>s' p. cancelRide tz s now uid rid = Inr (s', DriverCancelled True) \<and>
                  p \<in> set (participants s) \<and> rp_ride_id p = rid \<and> rp_status p = P_booked \<and>
                  (\<forall>q\<in>set (participants s). rp_ride_id q = rid \<and> rp_status q = P_booked \<longrightarrow>
                      booking_time p \<le> booking_time q) \<and>
                  rides s' rid = Some (ride\<lparr>driver_id := rp_user_id p, status := Ride_open\<rparr>) \<and>
                  p \<notin> set (participants s') \<and>
                  participants s' = filter (\<lambda>q. rp_id q \<noteq> rp_id p) (participants s)))"
proof (intro conjI impI)
  assume "bookedCount s rid = 0"
  then have e: "bookedByTime s rid = []" by (simp add: bookedByTime_empty)
  let ?pen = "if diffHours tz ride now < 3 then 5 else 2 :: real"
  obtain s' where tx: "driverCancelTx s now uid rid ?pen [] = Some s'"
    and r: "rides s' = (rides s)(rid \<mapsto> ride\<lparr>status := Ride_cancelled\<rparr>)"
    and ps: "participants s' = participants s"
    using driverCancelTx_none_booked[OF assms(2,4)] by blast
  have "cancelRide tz s now uid rid = Inr (s', DriverCancelled False)"
    using assms e tx by (simp add: cancelRide_def Let_def)
  with r ps show "\<exists>s'. cancelRide tz s now uid rid = Inr (s', DriverCancelled False) \<and>
                  rides s' rid = Some (ride\<lparr>status := Ride_cancelled\<rparr>) \<and>
                  participants s' = participants s"
    by auto
next
  assume "0 < bookedCount s rid"
  then obtain p ps where e: "bookedByTime s rid = p # ps"
    using bookedByTime_empty[of s rid] by (cases "bookedByTime s rid") auto
  note hd = bookedByTime_head[OF e]
  let ?pen = "if diffHours tz ride now < 3 then 5 else 2 :: real"
  obtain s' where tx: "driverCancelTx s now uid rid ?pen (p # ps) = Some s'"
    and r: "rides s' = (rides s)(rid \<mapsto> ride\<lparr>driver_id := rp_user_id p, status := Ride_open\<rparr>)"
    and del: "participants s' = filter (\<lambda>q. rp_id q \<noteq> rp_id p) (participants s)"
    using driverCancelTx_promote[OF assms(2,4)] by blast
  have c: "cancelRide tz s now uid rid = Inr (s', DriverCancelled True)"
    using assms e tx by (simp add: cancelRide_def Let_def)
  have "p \<notin> set (participants s')" using del by simp
  with c hd r del
  show "\<exists>s' p. cancelRide tz s now uid rid = Inr (s', DriverCancelled True) \<and>
                  p \<in> set (participants s) \<and> rp_ride_id p = rid \<and> rp_status p = P_booked \<and>
                  (\<forall>q\<in>set (participants s). rp_ride_id q = rid \<and> rp_status q = P_booked \<longrightarrow>
                      booking_time p \<le> booking_time q) \<and>
                  rides s' rid = Some (ride\<lparr>driver_id := rp_user_id p, status := Ride_open\<rparr>) \<and>
                  p \<notin> set (participants s') \<and>
                  participants s' = filter (\<lambda>q. rp_id q \<noteq> rp_id p) (participants s)"
    by (intro exI[of _ s'] exI[of _ p]) simp
qed

theorem driver_cancel_succession_witness:
  "(\<exists>s'. cancelRide 0 exTwoBooked 903600000 ''d1'' ''r1'' = Inr (s', DriverCancelled True) \<and>
      map_option driver_id (rides s' ''r1'') = Some ''u1'' \<and>
      map_option status (rides s' ''r1'') = Some Ride_open \<and>
      participants s' = [exBooking 1 ''r1'' ''u2'' P_booked (400 / 3) 2000]) \<and>
   (\<exists>s'. cancelRide 0 exNoneBooked 903600000 ''d1'' ''r1'' = Inr (s', DriverCancelled False) \<and>
      map_option status (rides s' ''r1'') = Some Ride_cancelled)"
proof -
  have a1: "findParticipant exTwoBooked ''r1'' ''d1'' = None" by (simp add: exTwoBooked_def findParticipant_def ex_defs)
  have a2: "rides exTwoBooked ''r1'' = Some (exRide ''d1'' 400 4 Ride_active)" by (simp add: exTwoBooked_def ex_defs)
  have a3: "driver_id (exRide ''d1'' 400 4 Ride_active) = ''d1''" by (simp add: ex_defs)
  have a4: "users exTwoBooked ''d1'' = Some exUser" by (simp add: exTwoBooked_def ex_defs)
  have a5: "0 < bookedCount exTwoBooked ''r1''" by (simp add: exTwoBooked_def bookedCount_def ex_defs)
  have b1: "findParticipant exNoneBooked ''r1'' ''d1'' = None" by (simp add: exNoneBooked_def findParticipant_def ex_defs)
  have b2: "rides exNoneBooked ''r1'' = Some (exRide ''d1'' 400 4 Ride_open)" by (simp add: exNoneBooked_def ex_defs)
  have b3: "driver_id (exRide ''d1'' 400 4 Ride_open) = ''d1''" by (simp add: ex_defs)
  have b4: "users exNoneBooked ''d1'' = Some exUser" by (simp add: exNoneBooked_def ex_defs)
  have b5: "bookedCount exNoneBooked ''r1'' = 0" by (simp add: exNoneBooked_def bookedCount_def ex_defs)
  from driver_cancel_succession[OF a1 a2 a3 a4, of 0 903600000] a5
  have A: "\<exists>s'. cancelRide 0 exTwoBooked 903600000 ''d1'' ''r1'' = Inr (s', DriverCancelled True) \<and>
      map_option driver_id (rides s' ''r1'') = Some ''u1'' \<and>
      map_option status (rides s' ''r1'') = Some Ride_open \<and>
      participants s' = [exBooking 1 ''r1'' ''u2'' P_booked (400 / 3) 2000]"
    by (auto simp: exTwoBooked_def ex_defs)
  from driver_cancel_succession[OF b1 b2 b3 b4, of 0 903600000] b5
  have B: "\<exists>s'. cancelRide 0 exNoneBooked 903600000 ''d1'' ''r1'' = Inr (s', DriverCancelled False) \<and>
      map_option status (rides s' ''r1'') = Some Ride_cancelled"
    by (auto simp: exNoneBooked_def ex_defs)
  from A B show ?thesis by blast
qed

subsection \<open>C3: one active booking\<close>

text \<open>
  C3 does not hold of the code. The query of \<^verbatim>\<open>/join\<close> compares the date field
  \<open>start_date\<close> alone with now, so on the day of a ride its booking is no longer found.
  Here \<open>u2\<close> holds a booking on the open ride \<open>r2\<close>, which starts in an hour, and asks
  to join \<open>r1\<close>, another open ride that starts in an hour and that \<open>u2\<close> does not
  drive: the join succeeds, a row is added, and \<open>u2\<close> holds two booked participations.
\<close>

theorem join_second_booking_same_day:
  "holdsOtherActiveBooking 0 exJoinStore 903600000 ''u2'' ''r1'' \<and>
   rides exJoinStore ''r1'' = Some (exRide ''d1'' 300 3 Ride_open) \<and>
   903600000 < scheduledStart 0 (exRide ''d1'' 300 3 Ride_open) \<and>
   joinRide exJoinStore 903600000 ''u2'' ''r1'' =
     Inr (exJoinStore\<lparr>participants := participants exJoinStore @
            [exBooking 4 ''r1'' ''u2'' P_booked 100 903600000]\<rparr>,
          exBooking 4 ''r1'' ''u2'' P_booked 100 903600000) \<and>
   filter (\<lambda>p. rp_user_id p = ''u2'' \<and> rp_status p = P_booked)
     (participants exJoinStore @ [exBooking 4 ''r1'' ''u2'' P_booked 100 903600000]) =
     [exBooking 1 ''r2'' ''u2'' P_booked 100 1000,
      exBooking 4 ''r1'' ''u2'' P_booked 100 903600000]"
  by (simp add: holdsOtherActiveBooking_def joinRide_def exJoinStore_def ex_defs
      activeBooking_def rideParticipants_def findParticipant_def nextParticipantId_def
      Let_def scheduledStart_def localDay_def)

text \<open>
  The same query asks for rides whose status is \<^verbatim>\<open>"open"\<close> or \<^verbatim>\<open>"booked"\<close>, and no
  ride has the latter: a booking on an active ride is not found either. Here \<open>u1\<close> is
  booked on the active ride \<open>r1\<close> and joins \<open>r2\<close>.
\<close>

lemma join_booking_on_active_ride_not_counted:
  "(case joinRide
          (exStore [''r1'' \<mapsto> exRide ''d1'' 300 3 Ride_active,
                    ''r2'' \<mapsto> exRide ''d1'' 200 3 Ride_open]
             [exBooking 1 ''r1'' ''u1'' P_booked 150 1000])
          800000000 ''u1'' ''r2'' of
      Inl e \<Rightarrow> None
    | Inr (s', p) \<Rightarrow>
        Some (rp_user_id p, rp_ride_id p, rp_status p, length (participants s'))) =
   Some (''u1'', ''r2'', P_booked, 2)"
  by (simp add: joinRide_def ex_defs activeBooking_def rideParticipants_def
      findParticipant_def Let_def)

text \<open>
  What the query does find: a booking on a ride that is open and whose \<open>start_date\<close> is
  not before now. Then a join of an open ride that the caller does not drive fails and
  leaves the store as it was.
\<close>

lemma join_fails_when_query_finds_booking:
  assumes "p \<in> set (participants s)"
    and "rp_user_id p = uid" and "rp_status p = P_booked"
    and "rides s (rp_ride_id p) = Some held"
    and "status held = Ride_open" and "now \<le> start_date held"
    and "rides s rid = Some target"
    and "status target = Ride_open" and "driver_id target \<noteq> uid"
  shows "joinRide s now uid rid = Inl AlreadyInActiveRide \<and>
         handle tz s (JoinRide now uid rid) = s"
proof -
  have "activeBooking s now uid \<noteq> None"
    unfolding activeBooking_iff using assms(1-6) by blast
  then have "joinRide s now uid rid = Inl AlreadyInActiveRide"
    using assms(7-9) by (simp add: joinRide_def)
  then show ?thesis by simp
qed

subsection \<open>C4: headcount within capacity\<close>

text \<open>
  C4: in a store whose participant ids are distinct and whose participants belong to
  rides of the store, a ride that has just been created has its booked participants
  plus the host within \<open>max_passengers\<close>; and when this holds of every ride of the
  store (as in the store without rides), it holds of every ride after any sequence of
  requests to create, join, start, complete and cancel.
\<close>

theorem capacity_invariant:
  assumes "wellFormed s"
  shows "(\<forall>s' ride. createRide s uid newId b = (s', Inr ride) \<longrightarrow>
            rides s' newId = Some ride \<and>
            int (bookedCount s' newId) + 1 \<le> max_passengers ride) \<and>
         (capacityOk s \<longrightarrow>
            (\<forall>rid ride. rides (handleAll tz s qs) rid = Some ride \<longrightarrow>
               int (bookedCount (handleAll tz s qs) rid) + 1 \<le> max_passengers ride) \<and>
            wellFormed (handleAll tz s qs))"
proof (intro conjI allI impI)
  fix s' ride
  assume c: "createRide s uid newId b = (s', Inr ride)"
  note cr = createRide_Inr[OF c]
  have "bookedCount s newId = 0"
    using assms cr by (auto simp: bookedCount_def wellFormed_iff filter_empty_conv)
  then have z: "bookedCount s' newId = 0"
    using cr bookedCount_participants[of s' s newId] by simp
  show "rides s' newId = Some ride" using cr by simp
  show "int (bookedCount s' newId) + 1 \<le> max_passengers ride" using z cr by simp
next
  assume "capacityOk s"
  from handleAll_keeps_invariant[OF assms this, of tz qs]
  show "wellFormed (handleAll tz s qs)" by simp
  fix rid ride assume "rides (handleAll tz s qs) rid = Some ride"
  with handleAll_keeps_invariant[OF assms \<open>capacityOk s\<close>, of tz qs]
  show "int (bookedCount (handleAll tz s qs) rid) + 1 \<le> max_passengers ride"
    by (simp add: capacityOk_def)
qed

theorem capacity_invariant_witness:
  "wellFormed (exStore Map.empty []) \<and> capacityOk (exStore Map.empty []) \<and>
   rides (handleAll 0 (exStore Map.empty [])
      [CreateRide ''d1'' ''r1'' (exBody ''car'' 2), JoinRide 800000000 ''u1'' ''r1'',
       JoinRide 800000000 ''u2'' ''r1'']) ''r1'' = Some (exRide ''d1'' 300 2 Ride_open) \<and>
   bookedCount (handleAll 0 (exStore Map.empty [])
      [CreateRide ''d1'' ''r1'' (exBody ''car'' 2), JoinRide 800000000 ''u1'' ''r1'',
       JoinRide 800000000 ''u2'' ''r1'']) ''r1'' = 1 \<and>
   int (bookedCount (handleAll 0 (exStore Map.empty [])
      [CreateRide ''d1'' ''r1'' (exBody ''car'' 2), JoinRide 800000000 ''u1'' ''r1'',
       JoinRide 800000000 ''u2'' ''r1'']) ''r1'') + 1 \<le> 2 \<and>
   joinRide (handleAll 0 (exStore Map.empty [])
      [CreateRide ''d1'' ''r1'' (exBody ''car'' 2), JoinRide 800000000 ''u1'' ''r1''])
      800000000 ''u2'' ''r1'' = Inl RideFull"
proof -
  let ?qs = "[CreateRide ''d1'' ''r1'' (exBody ''car'' 2), JoinRide 800000000 ''u1'' ''r1'',
       JoinRide 800000000 ''u2'' ''r1'']"
  let ?s0 = "exStore Map.empty []"
  have w: "wellFormed ?s0" and c: "capacityOk ?s0"
    by (simp_all add: wellFormed_def capacityOk_def exStore_def)
  have s1: "handle 0 ?s0 (CreateRide ''d1'' ''r1'' (exBody ''car'' 2)) =
     ?s0\<lparr>vehicles := [''d1'' \<mapsto> Car], rides := [''r1'' \<mapsto> exRide ''d1'' 300 2 Ride_open]\<rparr>"
    by (simp add: createRide_def rideCreateSchema_def exBody_def ex_defs Let_def)
  let ?s1 = "?s0\<lparr>vehicles := [''d1'' \<mapsto> Car], rides := [''r1'' \<mapsto> exRide ''d1'' 300 2 Ride_open]\<rparr>"
  let ?p = "\<lparr>rp_id = 1, rp_ride_id = ''r1'', rp_user_id = ''u1'', rp_status = P_booked,
            share_fare = 150, booking_time = 800000000\<rparr>"
  have s2: "handle 0 ?s1 (JoinRide 800000000 ''u1'' ''r1'') = ?s1\<lparr>participants := [?p]\<rparr>"
    by (simp add: joinRide_def ex_defs activeBooking_def rideParticipants_def
        findParticipant_def nextParticipantId_def Let_def)
  have full: "joinRide (?s1\<lparr>participants := [?p]\<rparr>) 800000000 ''u2'' ''r1'' = Inl RideFull"
    by (simp add: joinRide_def ex_defs activeBooking_def rideParticipants_def Let_def)
  then have s3: "handle 0 (?s1\<lparr>participants := [?p]\<rparr>) (JoinRide 800000000 ''u2'' ''r1'') =
      ?s1\<lparr>participants := [?p]\<rparr>"
    by simp
  have run: "handleAll 0 ?s0 ?qs = ?s1\<lparr>participants := [?p]\<rparr>"
    by (simp only: handleAll.simps s1 s2 s3)
  have run2: "handleAll 0 ?s0 [CreateRide ''d1'' ''r1'' (exBody ''car'' 2),
       JoinRide 800000000 ''u1'' ''r1''] = ?s1\<lparr>participants := [?p]\<rparr>"
    by (simp only: handleAll.simps s1 s2)
  have r: "rides (handleAll 0 ?s0 ?qs) ''r1'' = Some (exRide ''d1'' 300 2 Ride_open)"
    unfolding run by simp
  have b: "bookedCount (handleAll 0 ?s0 ?qs) ''r1'' = 1"
    unfolding run by (simp add: bookedCount_def)
  have "int (bookedCount (handleAll 0 ?s0 ?qs) ''r1'') + 1 \<le>
        max_passengers (exRide ''d1'' 300 2 Ride_open)"
    using capacity_invariant[OF w, of "''d1''" "''r1''" "exBody ''car'' 2" 0 ?qs] c r by blast
  then have le: "int (bookedCount (handleAll 0 ?s0 ?qs) ''r1'') + 1 \<le> 2"
    by (simp add: exRide_def)
  from w c r b le full run2 show ?thesis by simp
qed

subsection \<open>C5: the share of a joiner\<close>

text \<open>
  C5: a successful join on a ride with \<open>B\<close> booked participants stores the joiner's
  row with \<open>share_fare = total_fare / (B + 2)\<close>, and every row that was booked before
  is in the store afterwards as it was.
\<close>

theorem join_share_fare:
  assumes "joinRide s now uid rid = Inr (s', p)"
    and "rides s rid = Some ride"
    and "distinct (map rp_id (participants s))"
  shows "share_fare p = total_fare ride / real (bookedCount s rid + 2) \<and>
         p \<in> set (participants s') \<and>
         rp_ride_id p = rid \<and> rp_user_id p = uid \<and> rp_status p = P_booked \<and>
         (\<forall>q\<in>set (participants s). rp_status q = P_booked \<longrightarrow> q \<in> set (participants s'))"
proof -
  from joinRide_Inr_cases[OF assms(1,2)]
  consider (reuse) existing where
      "findParticipant s rid uid = Some existing" "rp_status existing = P_cancelled"
      "p = existing\<lparr>rp_status := P_booked,
             share_fare := total_fare ride / real_of_int (int (bookedCount s rid) + 1 + 1)\<rparr>"
      "participants s' =
         map (\<lambda>q. if rp_id q = rp_id existing
                   then q\<lparr>rp_status := P_booked,
                         share_fare := total_fare ride / real_of_int (int (bookedCount s rid) + 1 + 1)\<rparr>
                   else q) (participants s)"
    | (create) "findParticipant s rid uid = None"
      "p = \<lparr>rp_id = nextParticipantId (participants s), rp_ride_id = rid, rp_user_id = uid,
            rp_status = P_booked,
            share_fare = total_fare ride / real_of_int (int (bookedCount s rid) + 1 + 1),
            booking_time = now\<rparr>"
      "participants s' = participants s @ [p]"
    by auto
  then show ?thesis
  proof cases
    case reuse
    note ex = find_participant_ride[OF reuse(1)]
    have share: "share_fare p = total_fare ride / real (bookedCount s rid + 2)"
      using reuse(3) by (simp add: add.commute)
    have mem: "p \<in> set (participants s')"
      unfolding reuse(4) using ex reuse(3) by force
    have keep: "q \<in> set (participants s')"
      if "q \<in> set (participants s)" "rp_status q = P_booked" for q
    proof -
      have ne: "q \<noteq> existing" using that(2) reuse(2) by auto
      have inx: "existing \<in> set (participants s)" using ex by simp
      show ?thesis
        unfolding reuse(4) by (rule map_update_by_id_other[OF assms(3) inx that(1) ne])
    qed
    from share mem keep ex reuse(3) show ?thesis by simp
  next
    case create
    have "share_fare p = total_fare ride / real (bookedCount s rid + 2)"
      using create(2) by (simp add: add.commute)
    with create show ?thesis by simp
  qed
qed

theorem join_share_fare_witness:
  "\<exists>s' p. joinRide exJoinStore 800000000 ''u4'' ''r1'' = Inr (s', p) \<and>
     bookedCount exJoinStore ''r1'' = 1 \<and>
     share_fare p = 300 / 3 \<and> p \<in> set (participants s') \<and>
     exBooking 2 ''r1'' ''u3'' P_booked 150 2000 \<in> set (participants s') \<and>
     exBooking 1 ''r2'' ''u2'' P_booked 100 1000 \<in> set (participants s')"
proof -
  obtain s' p where j: "joinRide exJoinStore 800000000 ''u4'' ''r1'' = Inr (s', p)"
    by (simp add: joinRide_def exJoinStore_def ex_defs activeBooking_def rideParticipants_def
        findParticipant_def Let_def)
  have r: "rides exJoinStore ''r1'' = Some (exRide ''d1'' 300 3 Ride_open)"
    by (simp add: exJoinStore_def ex_defs)
  have d: "distinct (map rp_id (participants exJoinStore))"
    by (simp add: exJoinStore_def ex_defs)
  have b: "bookedCount exJoinStore ''r1'' = 1"
    by (simp add: exJoinStore_def ex_defs bookedCount_def)
  have m: "exBooking 2 ''r1'' ''u3'' P_booked 150 2000 \<in> set (participants exJoinStore)"
     "exBooking 1 ''r2'' ''u2'' P_booked 100 1000 \<in> set (participants exJoinStore)"
     "rp_status (exBooking 2 ''r1'' ''u3'' P_booked 150 2000) = P_booked"
     "rp_status (exBooking 1 ''r2'' ''u2'' P_booked 100 1000) = P_booked"
    by (simp_all add: exJoinStore_def ex_defs)
  from join_share_fare[OF j r d] b m
  have "share_fare p = 300 / 3 \<and> p \<in> set (participants s') \<and>
     exBooking 2 ''r1'' ''u3'' P_booked 150 2000 \<in> set (participants s') \<and>
     exBooking 1 ''r2'' ''u2'' P_booked 100 1000 \<in> set (participants s')"
    by (simp add: ex_defs)
  with j b show ?thesis by blast
qed

subsection \<open>C6: the preconditions of a join, in order\<close>

text \<open>
  C6 does not hold of the code. The query of \<^verbatim>\<open>/join\<close> does not leave out the ride
  that is joined, so a booking on that ride itself is reported as a booking on another
  ride. Here \<open>u3\<close> is booked on the open ride \<open>r1\<close> and nowhere else, \<open>r1\<close> has room,
  and \<open>u3\<close> asks to join \<open>r1\<close> again: the ride exists, is open and is not driven by
  \<open>u3\<close>, \<open>u3\<close> holds no other active booking and the ride is not full, so the first
  check that fails in the stated order is the booked row of \<open>u3\<close> for \<open>r1\<close>
  (\<open>AlreadyBooked\<close>); the route answers \<open>AlreadyInActiveRide\<close>.
\<close>

theorem join_same_ride_reported_as_other_booking:
  "rides exJoinStore ''r1'' = Some (exRide ''d1'' 300 3 Ride_open) \<and>
   status (exRide ''d1'' 300 3 Ride_open) = Ride_open \<and>
   driver_id (exRide ''d1'' 300 3 Ride_open) = ''d1'' \<and>
   \<not> holdsOtherActiveBooking 0 exJoinStore 800000000 ''u3'' ''r1'' \<and>
   int (bookedCount exJoinStore ''r1'') + 1 < max_passengers (exRide ''d1'' 300 3 Ride_open) \<and>
   findParticipant exJoinStore ''r1'' ''u3'' =
     Some (exBooking 2 ''r1'' ''u3'' P_booked 150 2000) \<and>
   joinRide exJoinStore 800000000 ''u3'' ''r1'' = Inl AlreadyInActiveRide \<and>
   errorBody AlreadyInActiveRide =
     Some (400, ''You already have an active booking for another ride'')"
  by (simp add: holdsOtherActiveBooking_def joinRide_def exJoinStore_def ex_defs
      activeBooking_def bookedCount_def findParticipant_def)

text \<open>
  What does hold: the route runs its checks in this order, with the query as it is
  (\<open>activeBooking\<close>) in the place of the active-booking check. A booked row of the
  caller for the ride is reached only when the query finds nothing.
\<close>

lemma joinRide_checks_in_order:
  "(rides s rid = None \<longrightarrow> joinRide s now uid rid = Inl RideNotFound) \<and>
   (\<forall>ride. rides s rid = Some ride \<longrightarrow>
      (status ride \<noteq> Ride_open \<longrightarrow> joinRide s now uid rid = Inl RideNotOpen) \<and>
      (status ride = Ride_open \<and> driver_id ride = uid \<longrightarrow>
         joinRide s now uid rid = Inl CannotBookOwnRide) \<and>
      (status ride = Ride_open \<and> driver_id ride \<noteq> uid \<and> activeBooking s now uid \<noteq> None \<longrightarrow>
         joinRide s now uid rid = Inl AlreadyInActiveRide) \<and>
      (status ride = Ride_open \<and> driver_id ride \<noteq> uid \<and> activeBooking s now uid = None \<and>
       max_passengers ride \<le> int (bookedCount s rid) + 1 \<longrightarrow>
         joinRide s now uid rid = Inl RideFull) \<and>
      (status ride = Ride_open \<and> driver_id ride \<noteq> uid \<and> activeBooking s now uid = None \<and>
       int (bookedCount s rid) + 1 < max_passengers ride \<longrightarrow>
         (\<forall>existing. findParticipant s rid uid = Some existing \<and> rp_status existing = P_booked \<longrightarrow>
            joinRide s now uid rid = Inl AlreadyBooked) \<and>
         (\<forall>existing. findParticipant s rid uid = Some existing \<and> rp_status existing = P_cancelled \<longrightarrow>
            (\<exists>s'. joinRide s now uid rid =
                    Inr (s', existing\<lparr>rp_status := P_booked,
                               share_fare := total_fare ride / real (bookedCount s rid + 2)\<rparr>) \<and>
                  length (participants s') = length (participants s) \<and>
                  existing\<lparr>rp_status := P_booked,
                          share_fare := total_fare ride / real (bookedCount s rid + 2)\<rparr>
                    \<in> set (participants s'))) \<and>
         (findParticipant s rid uid = None \<longrightarrow>
            (\<exists>p. joinRide s now uid rid = Inr (s\<lparr>participants := participants s @ [p]\<rparr>, p) \<and>
                 rp_ride_id p = rid \<and> rp_user_id p = uid \<and> rp_status p = P_booked \<and>
                 share_fare p = total_fare ride / real (bookedCount s rid + 2)))))"
proof (intro conjI allI impI; (elim conjE)?)
  assume "rides s rid = None"
  then show "joinRide s now uid rid = Inl RideNotFound"
    by (simp add: joinRide_def)
next
  fix ride assume "rides s rid = Some ride" "status ride \<noteq> Ride_open"
  then show "joinRide s now uid rid = Inl RideNotOpen"
    by (simp add: joinRide_def)
next
  fix ride assume "rides s rid = Some ride" "status ride = Ride_open" "driver_id ride = uid"
  then show "joinRide s now uid rid = Inl CannotBookOwnRide"
    by (simp add: joinRide_def)
next
  fix ride assume "rides s rid = Some ride" "status ride = Ride_open" "driver_id ride \<noteq> uid"
    "activeBooking s now uid \<noteq> None"
  then show "joinRide s now uid rid = Inl AlreadyInActiveRide"
    by (simp add: joinRide_def)
next
  fix ride assume "rides s rid = Some ride" "status ride = Ride_open" "driver_id ride \<noteq> uid"
    "activeBooking s now uid = None" "max_passengers ride \<le> int (bookedCount s rid) + 1"
  then show "joinRide s now uid rid = Inl RideFull"
    by (simp add: joinRide_def booked_of_ride Let_def)
next
  fix ride existing
  assume "rides s rid = Some ride" "status ride = Ride_open" "driver_id ride \<noteq> uid"
    "activeBooking s now uid = None" "int (bookedCount s rid) + 1 < max_passengers ride"
    "findParticipant s rid uid = Some existing" "rp_status existing = P_booked"
  then show "joinRide s now uid rid = Inl AlreadyBooked"
    by (simp add: joinRide_def booked_of_ride Let_def)
next
  fix ride existing
  assume a: "rides s rid = Some ride" "status ride = Ride_open" "driver_id ride \<noteq> uid"
    and n: "activeBooking s now uid = None"
    and c: "int (bookedCount s rid) + 1 < max_passengers ride"
      "findParticipant s rid uid = Some existing" "rp_status existing = P_cancelled"
  let ?p = "existing\<lparr>rp_status := P_booked,
                   share_fare := total_fare ride / real (bookedCount s rid + 2)\<rparr>"
  let ?s = "s\<lparr>participants :=
               map (\<lambda>p. if rp_id p = rp_id existing
                         then p\<lparr>rp_status := P_booked,
                               share_fare := total_fare ride / real (bookedCount s rid + 2)\<rparr>
                         else p) (participants s)\<rparr>"
  have j: "joinRide s now uid rid = Inr (?s, ?p)"
    by (rule joinRide_reuse[OF a n c])
  have "existing \<in> set (participants s)"
    using find_participant_ride[OF c(2)] by simp
  then have "?p \<in> set (participants ?s)" by force
  with j show "\<exists>s'. joinRide s now uid rid = Inr (s', ?p) \<and>
      length (participants s') = length (participants s) \<and> ?p \<in> set (participants s')"
    by (intro exI[of _ ?s]) simp
next
  fix ride
  assume a: "rides s rid = Some ride" "status ride = Ride_open" "driver_id ride \<noteq> uid"
    and n: "activeBooking s now uid = None"
    and c: "int (bookedCount s rid) + 1 < max_passengers ride"
      "findParticipant s rid uid = None"
  show "\<exists>p. joinRide s now uid rid = Inr (s\<lparr>participants := participants s @ [p]\<rparr>, p) \<and>
                 rp_ride_id p = rid \<and> rp_user_id p = uid \<and> rp_status p = P_booked \<and>
                 share_fare p = total_fare ride / real (bookedCount s rid + 2)"
    using joinRide_create[OF a n c] by simp
qed

text \<open>Each branch on the example store.\<close>

lemma joinRide_checks_in_order_examples:
  "joinRide exJoinStore 800000000 ''u1'' ''r0'' = Inl RideNotFound \<and>
   joinRide exJoinStore 800000000 ''u1'' ''r3'' = Inl RideNotOpen \<and>
   joinRide exJoinStore 800000000 ''d1'' ''r1'' = Inl CannotBookOwnRide \<and>
   joinRide exJoinStore 800000000 ''u2'' ''r1'' = Inl AlreadyInActiveRide \<and>
   joinRide exJoinStore 800000000 ''u1'' ''r2'' = Inl RideFull \<and>
   joinRide exJoinStore 903600000 ''u3'' ''r1'' = Inl AlreadyBooked \<and>
   (\<exists>s'. joinRide exJoinStore 800000000 ''u1'' ''r1'' =
            Inr (s', exBooking 3 ''r1'' ''u1'' P_booked 100 3000) \<and>
         length (participants s') = 3) \<and>
   (\<exists>p. joinRide exJoinStore 800000000 ''u4'' ''r1'' =
            Inr (exJoinStore\<lparr>participants := participants exJoinStore @ [p]\<rparr>, p) \<and>
         rp_user_id p = ''u4'' \<and> rp_status p = P_booked \<and> share_fare p = 100)"
proof -
  have r0: "rides exJoinStore ''r0'' = None"
    and r1: "rides exJoinStore ''r1'' = Some (exRide ''d1'' 300 3 Ride_open)"
    and r2: "rides exJoinStore ''r2'' = Some (exRide ''d1'' 200 2 Ride_open)"
    and r3: "rides exJoinStore ''r3'' = Some (exRide ''d1'' 200 4 Ride_completed)"
    by (simp_all add: exJoinStore_def ex_defs)
  have c1: "bookedCount exJoinStore ''r1'' = 1" and c2: "bookedCount exJoinStore ''r2'' = 1"
    by (simp_all add: exJoinStore_def ex_defs bookedCount_def)
  have a1: "activeBooking exJoinStore 800000000 ''u1'' = None"
    and a2: "activeBooking exJoinStore 800000000 ''u2'' \<noteq> None"
    and a3: "activeBooking exJoinStore 903600000 ''u3'' = None"
    and a4: "activeBooking exJoinStore 800000000 ''u4'' = None"
    by (simp_all add: activeBooking_def exJoinStore_def ex_defs)
  have f1: "findParticipant exJoinStore ''r1'' ''u1'' =
              Some (exBooking 3 ''r1'' ''u1'' P_cancelled 150 3000)"
    and f3: "findParticipant exJoinStore ''r1'' ''u3'' =
              Some (exBooking 2 ''r1'' ''u3'' P_booked 150 2000)"
    and f4: "findParticipant exJoinStore ''r1'' ''u4'' = None"
    by (simp_all add: findParticipant_def exJoinStore_def ex_defs)
  have len: "length (participants exJoinStore) = 3"
    by (simp add: exJoinStore_def exStore_def)
  have "joinRide exJoinStore 800000000 ''u1'' ''r0'' = Inl RideNotFound"
    using joinRide_checks_in_order[of exJoinStore "''r0''" 800000000 "''u1''"] r0
    by simp
  moreover have "joinRide exJoinStore 800000000 ''u1'' ''r3'' = Inl RideNotOpen"
    using joinRide_checks_in_order[of exJoinStore "''r3''" 800000000 "''u1''"] r3
    by (simp add: ex_defs)
  moreover have "joinRide exJoinStore 800000000 ''d1'' ''r1'' = Inl CannotBookOwnRide"
    using joinRide_checks_in_order[of exJoinStore "''r1''" 800000000 "''d1''"] r1
    by (simp add: ex_defs)
  moreover have "joinRide exJoinStore 800000000 ''u2'' ''r1'' = Inl AlreadyInActiveRide"
    using joinRide_checks_in_order[of exJoinStore "''r1''" 800000000 "''u2''"] r1 a2
    by (simp add: ex_defs)
  moreover have "joinRide exJoinStore 800000000 ''u1'' ''r2'' = Inl RideFull"
    using joinRide_checks_in_order[of exJoinStore "''r2''" 800000000 "''u1''"] r2 a1 c2
    by (simp add: ex_defs)
  moreover have "joinRide exJoinStore 903600000 ''u3'' ''r1'' = Inl AlreadyBooked"
    using joinRide_checks_in_order[of exJoinStore "''r1''" 903600000 "''u3''"] r1 a3 c1 f3
    by (simp add: ex_defs)
  moreover have "\<exists>s'. joinRide exJoinStore 800000000 ''u1'' ''r1'' =
            Inr (s', exBooking 3 ''r1'' ''u1'' P_booked 100 3000) \<and>
         length (participants s') = 3"
    using joinRide_checks_in_order[of exJoinStore "''r1''" 800000000 "''u1''"] r1 a1 c1 f1 len
    by (auto simp: ex_defs)
  moreover have "\<exists>p. joinRide exJoinStore 800000000 ''u4'' ''r1'' =
            Inr (exJoinStore\<lparr>participants := participants exJoinStore @ [p]\<rparr>, p) \<and>
         rp_user_id p = ''u4'' \<and> rp_status p = P_booked \<and> share_fare p = 100"
    using joinRide_checks_in_order[of exJoinStore "''r1''" 800000000 "''u4''"] r1 a4 c1 f4
    by (auto simp: ex_defs)
  ultimately show ?thesis by blast
qed

subsection \<open>C7: the guards of a start\<close>

text \<open>
  C7, as stated, fails: a ride that is not open does not always give \<open>InvalidState\<close>.
  The driver is checked first, so a caller who is not the driver of the completed ride
  \<open>r3\<close> is told \<open>NotRideOwner\<close>.
\<close>

theorem startRide_not_owner_counterexample:
  "map_option status (rides exJoinStore ''r3'') = Some Ride_completed \<and>
   startRide 0 exJoinStore 950000000 ''u1'' ''r3'' = Inl NotRideOwner"
  by (simp add: startRide_def exJoinStore_def ex_defs)

text \<open>
  C7, amended: on an existing ride a start fails with \<open>NotRideOwner\<close> when the caller
  is not the driver; otherwise with \<open>InvalidState\<close> when the ride is not open;
  otherwise with \<open>TooEarly\<close> when now is before the scheduled start; and when all
  guards pass it sets the status of the ride to active.
\<close>

theorem startRide_guards:
  assumes "rides s rid = Some ride"
  shows "(driver_id ride \<noteq> uid \<longrightarrow> startRide tz s now uid rid = Inl NotRideOwner) \<and>
         (driver_id ride = uid \<and> status ride \<noteq> Ride_open \<longrightarrow>
            startRide tz s now uid rid = Inl InvalidState) \<and>
         (driver_id ride = uid \<and> status ride = Ride_open \<and> now < scheduledStart tz ride \<longrightarrow>
            startRide tz s now uid rid = Inl TooEarly) \<and>
         (driver_id ride = uid \<and> status ride = Ride_open \<and> scheduledStart tz ride \<le> now \<longrightarrow>
            startRide tz s now uid rid =
              Inr (s\<lparr>rides := (rides s)(rid \<mapsto> ride\<lparr>status := Ride_active\<rparr>)\<rparr>,
                   ride\<lparr>status := Ride_active\<rparr>))"
  using assms by (simp add: startRide_def Let_def rideStartDateTime_eq)

theorem startRide_guards_witness:
  "scheduledStart 19800000 (exRide ''d1'' 300 3 Ride_open) = 907200000 \<and>
   startRide 19800000 exJoinStore 907200000 ''u1'' ''r1'' = Inl NotRideOwner \<and>
   startRide 19800000 exJoinStore 907200000 ''d1'' ''r3'' = Inl InvalidState \<and>
   startRide 19800000 exJoinStore 907199999 ''d1'' ''r1'' = Inl TooEarly \<and>
   startRide 19800000 exJoinStore 907200000 ''d1'' ''r1'' =
     Inr (exJoinStore\<lparr>rides := (rides exJoinStore)(''r1'' \<mapsto> exRide ''d1'' 300 3 Ride_active)\<rparr>,
          exRide ''d1'' 300 3 Ride_active)"
proof -
  have r1: "rides exJoinStore ''r1'' = Some (exRide ''d1'' 300 3 Ride_open)"
    and r3: "rides exJoinStore ''r3'' = Some (exRide ''d1'' 200 4 Ride_completed)"
    by (simp_all add: exJoinStore_def ex_defs)
  have t: "scheduledStart 19800000 (exRide ''d1'' 300 3 Ride_open) = 907200000"
    by (simp add: scheduledStart_def localDay_def ex_defs)
  have "startRide 19800000 exJoinStore 907200000 ''u1'' ''r1'' = Inl NotRideOwner"
    using startRide_guards[OF r1, of "''u1''" 19800000 907200000] by (simp add: ex_defs)
  moreover have "startRide 19800000 exJoinStore 907200000 ''d1'' ''r3'' = Inl InvalidState"
    using startRide_guards[OF r3, of "''d1''" 19800000 907200000] by (simp add: ex_defs)
  moreover have "startRide 19800000 exJoinStore 907199999 ''d1'' ''r1'' = Inl TooEarly"
    using startRide_guards[OF r1, of "''d1''" 19800000 907199999] t by (simp add: ex_defs)
  moreover have "startRide 19800000 exJoinStore 907200000 ''d1'' ''r1'' =
     Inr (exJoinStore\<lparr>rides := (rides exJoinStore)(''r1'' \<mapsto> exRide ''d1'' 300 3 Ride_active)\<rparr>,
          exRide ''d1'' 300 3 Ride_active)"
    using startRide_guards[OF r1, of "''d1''" 19800000 907200000] t by (simp add: ex_defs)
  ultimately show ?thesis using t by blast
qed

subsection \<open>C8: the bound on \<open>max_passengers\<close>\<close>

text \<open>
  C8, as stated, fails: the schema of the route bounds \<open>max_passengers\<close> by 6 for every
  vehicle type. A car with 6 passengers is accepted and the ride is stored.
\<close>

theorem createRide_car_six_counterexample:
  "snd (createRide (exStore Map.empty []) ''d1'' ''r1'' (exBody ''car'' 6)) =
     Inr (exRide ''d1'' 300 6 Ride_open) \<and>
   rides (fst (createRide (exStore Map.empty []) ''d1'' ''r1'' (exBody ''car'' 6))) ''r1'' =
     Some (exRide ''d1'' 300 6 Ride_open) \<and>
   vehicles (fst (createRide (exStore Map.empty []) ''d1'' ''r1'' (exBody ''car'' 6))) ''d1'' =
     Some Car"
  by (simp add: createRide_def rideCreateSchema_def exBody_def ex_defs Let_def)

text \<open>
  C8, amended: a request whose \<open>max_passengers\<close> is not an integer within 1 to 6 is
  rejected as a validation error and the store is unchanged; a request that is valid
  otherwise, with \<open>max_passengers\<close> an integer within 1 to 6, creates the ride with
  that bound for each of the vehicle types car, suv and auto.
\<close>

theorem createRide_max_passengers:
  "(\<not> (b_max_passengers b \<in> \<int> \<and> 1 \<le> b_max_passengers b \<and> b_max_passengers b \<le> 6) \<longrightarrow>
      createRide s uid newId b = (s, Inl ValidationError)) \<and>
   (b_max_passengers b \<in> \<int> \<and> 1 \<le> b_max_passengers b \<and> b_max_passengers b \<le> 6 \<and>
    b_vehicle_type b \<in> {''car'', ''suv'', ''auto''} \<and>
    b_start_location b \<noteq> [] \<and> b_end_location b \<noteq> [] \<and> 0 < b_total_fare b \<and>
    b_start_date b = Some sd \<and> b_start_time b = Some st \<and> rides s newId = None \<longrightarrow>
      (\<exists>s' ride. createRide s uid newId b = (s', Inr ride) \<and>
         rides s' newId = Some ride \<and>
         real_of_int (max_passengers ride) = b_max_passengers b \<and>
         driver_id ride = uid \<and> status ride = Ride_open \<and>
         participants s' = participants s))"
proof (intro conjI impI)
  assume "\<not> (b_max_passengers b \<in> \<int> \<and> 1 \<le> b_max_passengers b \<and> b_max_passengers b \<le> 6)"
  then have "\<not> rideCreateSchema b"
    using rideCreateSchema_max_passengers by blast
  then show "createRide s uid newId b = (s, Inl ValidationError)"
    by (simp add: createRide_def)
next
  assume a: "b_max_passengers b \<in> \<int> \<and> 1 \<le> b_max_passengers b \<and> b_max_passengers b \<le> 6 \<and>
    b_vehicle_type b \<in> {''car'', ''suv'', ''auto''} \<and>
    b_start_location b \<noteq> [] \<and> b_end_location b \<noteq> [] \<and> 0 < b_total_fare b \<and>
    b_start_date b = Some sd \<and> b_start_time b = Some st \<and> rides s newId = None"
  then have fl: "of_int \<lfloor>b_max_passengers b\<rfloor> = b_max_passengers b"
    by (simp add: of_int_floor_cancel)
  from a have vt: "vehicleTypeOf (b_vehicle_type b) \<noteq> None"
    unfolding vehicleTypeOf_Some_iff by blast
  then obtain v where v: "vehicleTypeOf (b_vehicle_type b) = Some v" by blast
  have ne: "1 \<le> length (b_start_location b)" "1 \<le> length (b_end_location b)"
    using a by (simp_all add: Suc_le_eq)
  have sch: "rideCreateSchema b"
    unfolding rideCreateSchema_def using a fl vt ne by blast
  show "\<exists>s' ride. createRide s uid newId b = (s', Inr ride) \<and>
         rides s' newId = Some ride \<and>
         real_of_int (max_passengers ride) = b_max_passengers b \<and>
         driver_id ride = uid \<and> status ride = Ride_open \<and>
         participants s' = participants s"
    using a sch v fl by (simp add: createRide_def Let_def split: option.splits)
qed

theorem createRide_max_passengers_witness:
  "createRide (exStore Map.empty []) ''d1'' ''r1'' (exBody ''auto'' 7) =
     (exStore Map.empty [], Inl ValidationError) \<and>
   createRide (exStore Map.empty []) ''d1'' ''r1'' (exBody ''suv'' (5 / 2)) =
     (exStore Map.empty [], Inl ValidationError) \<and>
   (\<exists>s' ride. createRide (exStore Map.empty []) ''d1'' ''r1'' (exBody ''auto'' 6) = (s', Inr ride) \<and>
      rides s' ''r1'' = Some ride \<and> max_passengers ride = 6)"
proof -
  have "createRide (exStore Map.empty []) ''d1'' ''r1'' (exBody ''auto'' 7) =
     (exStore Map.empty [], Inl ValidationError)"
    using createRide_max_passengers[of "exBody ''auto'' 7" "exStore Map.empty []" "''d1''" "''r1''"]
    by (simp add: exBody_def)
  moreover have "(5 / 2 :: real) \<notin> \<int>"
  proof
    assume "(5 / 2 :: real) \<in> \<int>"
    then obtain k :: int where "5 / 2 = (of_int k :: real)" by (auto elim: Ints_cases)
    then have "(5::real) = of_int (2 * k)" by simp
    then have "(5::int) = 2 * k" using of_int_eq_iff by (metis of_int_numeral)
    then show False by presburger
  qed
  then have "createRide (exStore Map.empty []) ''d1'' ''r1'' (exBody ''suv'' (5 / 2)) =
     (exStore Map.empty [], Inl ValidationError)"
    using createRide_max_passengers[of "exBody ''suv'' (5 / 2)" "exStore Map.empty []" "''d1''" "''r1''"]
    by (simp add: exBody_def)
  moreover have "\<exists>s' ride. createRide (exStore Map.empty []) ''d1'' ''r1'' (exBody ''auto'' 6) = (s', Inr ride) \<and>
      rides s' ''r1'' = Some ride \<and> max_passengers ride = 6"
    using createRide_max_passengers[of "exBody ''auto'' 6" "exStore Map.empty []" "''d1''" "''r1''"
        864000000 907200000]
    by (auto simp: exBody_def exStore_def)
  ultimately show ?thesis by blast
qed

subsection \<open>C9: the last participant cancels\<close>

text \<open>
  C9: when the caller holds the only booked participation of a ride and cancels, the
  cancellation succeeds and, in the one store that the transaction returns, no booked
  participant of the ride remains, the ride is open, the caller's row is cancelled and
  the cancellation is logged.
\<close>

theorem last_participant_cancel_reopens:
  assumes "findParticipant s rid uid = Some rp"
    and "rp_status rp = P_booked"
    and "bookedCount s rid = 1"
    and "rides s rid = Some ride"
    and "users s uid = Some u"
  shows "\<exists>s' pen. cancelRide tz s now uid rid = Inr (s', ParticipantCancelled pen) \<and>
           bookedCount s' rid = 0 \<and>
           rides s' rid = Some (ride\<lparr>status := Ride_open\<rparr>) \<and>
           findParticipant s' rid uid = Some (rp\<lparr>rp_status := P_cancelled\<rparr>) \<and>
           cancellations s' =
             cancellations s @ [\<lparr>rc_ride_id = rid, rc_user_id = uid, cancelled_at = now\<rparr>]"
proof -
  have rid: "rp_ride_id rp = rid"
    using find_participant_ride[OF assms(1)] by simp
  let ?pen = "if diffHours tz ride now < 3
              then max 0 (Math_round (share_fare rp * 0.25)) else 0"
  have zero: "bookedCount (updateParticipant s (rp_id rp) (\<lambda>p. p\<lparr>rp_status := P_cancelled\<rparr>)) rid = 0"
    by (rule none_booked_after_cancel[OF only_booked_row[OF assms(1-3)]])
  obtain s' where tx: "participantCancelTx s now uid rid rp ?pen = Some s'"
    and ps: "participants s' =
             map (\<lambda>p. if rp_id p = rp_id rp then p\<lparr>rp_status := P_cancelled\<rparr> else p)
               (participants s)"
    and cs: "cancellations s' =
             cancellations s @ [\<lparr>rc_ride_id = rid, rc_user_id = uid, cancelled_at = now\<rparr>]"
    and rs: "rides s' =
             (if bookedCount (updateParticipant s (rp_id rp) (\<lambda>p. p\<lparr>rp_status := P_cancelled\<rparr>)) rid = 0
              then (rides s)(rid \<mapsto> ride\<lparr>status := Ride_open\<rparr>) else rides s)"
    using participantCancelTx_Some[OF assms(4,5)] by blast
  have c: "cancelRide tz s now uid rid = Inr (s', ParticipantCancelled ?pen)"
    using assms(1,4) rid tx by (simp add: cancelRide_def Let_def)
  have b: "bookedCount s' rid = 0"
    using zero ps by (simp add: bookedCount_def)
  have r: "rides s' rid = Some (ride\<lparr>status := Ride_open\<rparr>)"
    using rs zero by simp
  have f: "findParticipant s' rid uid = Some (rp\<lparr>rp_status := P_cancelled\<rparr>)"
    using find_after_cancel[OF assms(1), of "rp_id rp"] ps by (simp add: findParticipant_def)
  from c b r f cs show ?thesis by blast
qed

theorem last_participant_cancel_reopens_witness:
  "\<exists>s' pen. cancelRide 0 exLastBooked 903600000 ''u1'' ''r1'' = Inr (s', ParticipantCancelled pen) \<and>
     bookedCount s' ''r1'' = 0 \<and>
     rides s' ''r1'' = Some (exRide ''d1'' 300 4 Ride_open) \<and>
     findParticipant s' ''r1'' ''u1'' = Some (exBooking 1 ''r1'' ''u1'' P_cancelled 150 1000) \<and>
     cancellations s' =
       [\<lparr>rc_ride_id = ''r1'', rc_user_id = ''u1'', cancelled_at = 903600000\<rparr>]"
proof -
  have h: "findParticipant exLastBooked ''r1'' ''u1'' = Some (exBooking 1 ''r1'' ''u1'' P_booked 150 1000)"
    "rp_status (exBooking 1 ''r1'' ''u1'' P_booked 150 1000) = P_booked"
    "bookedCount exLastBooked ''r1'' = 1"
    "rides exLastBooked ''r1'' = Some (exRide ''d1'' 300 4 Ride_active)"
    "users exLastBooked ''u1'' = Some exUser"
    by (simp_all add: exLastBooked_def findParticipant_def bookedCount_def ex_defs)
  have c: "cancellations exLastBooked = []"
    by (simp add: exLastBooked_def exStore_def)
  show ?thesis
    using last_participant_cancel_reopens[OF h, of 0 903600000] c
    by (simp add: ex_defs)
qed

subsection \<open>C10: cancelling again\<close>

text \<open>
  C10: when the caller's participant row is cancelled already, a cancellation succeeds
  all the same: it appends a row to the cancellation log, adds 1 to the caller's
  \<open>cancellation_count\<close> and takes 5 or 2 points of credibility, and the row is found
  cancelled afterwards; so every further call does the same: after the calls at the
  times \<open>ts\<close> the log has grown by their number, the count too, and the score has
  fallen by at least 2 for each.
\<close>

theorem repeated_cancel_penalised_again:
  assumes "findParticipant s rid uid = Some rp"
    and "rp_status rp = P_cancelled"
    and "rides s rid = Some ride"
    and "users s uid = Some u"
  shows "(\<exists>s' pen u'. cancelRide tz s now uid rid = Inr (s', ParticipantCancelled pen) \<and>
            cancellations s' =
              cancellations s @ [\<lparr>rc_ride_id = rid, rc_user_id = uid, cancelled_at = now\<rparr>] \<and>
            users s' uid = Some u' \<and>
            cancellation_count u' = cancellation_count u + 1 \<and>
            (credibility_score u' = credibility_score u - 5 \<or>
             credibility_score u' = credibility_score u - 2) \<and>
            findParticipant s' rid uid = Some rp) \<and>
         length (cancellations (handleAll tz s (map (\<lambda>t. CancelRide t uid rid) ts))) =
           length (cancellations s) + length ts \<and>
         (\<exists>u'. users (handleAll tz s (map (\<lambda>t. CancelRide t uid rid) ts)) uid = Some u' \<and>
               cancellation_count u' = cancellation_count u + int (length ts) \<and>
               credibility_score u' \<le> credibility_score u - 2 * real (length ts))"
  using cancel_again_step[OF assms, of tz now] cancel_again_many[OF assms, of tz ts]
  by blast

theorem repeated_cancel_penalised_again_witness:
  "(\<exists>s' pen u'. cancelRide 0 exNoneBooked 903600000 ''u2'' ''r1'' =
        Inr (s', ParticipantCancelled pen) \<and>
      length (cancellations s') = 1 \<and>
      users s' ''u2'' = Some u' \<and> cancellation_count u' = 1 \<and>
      credibility_score u' \<le> 98) \<and>
   length (cancellations (handleAll 0 exNoneBooked
      [CancelRide 903600000 ''u2'' ''r1'', CancelRide 903700000 ''u2'' ''r1''])) = 2 \<and>
   (\<exists>u'. users (handleAll 0 exNoneBooked
            [CancelRide 903600000 ''u2'' ''r1'', CancelRide 903700000 ''u2'' ''r1'']) ''u2'' = Some u' \<and>
         cancellation_count u' = 2 \<and> credibility_score u' \<le> 96)"
proof -
  have h: "findParticipant exNoneBooked ''r1'' ''u2'' = Some (exBooking 1 ''r1'' ''u2'' P_cancelled 200 2000)"
    "rp_status (exBooking 1 ''r1'' ''u2'' P_cancelled 200 2000) = P_cancelled"
    "rides exNoneBooked ''r1'' = Some (exRide ''d1'' 400 4 Ride_open)"
    "users exNoneBooked ''u2'' = Some exUser"
    by (simp_all add: exNoneBooked_def findParticipant_def ex_defs)
  have c: "cancellations exNoneBooked = []"
    by (simp add: exNoneBooked_def exStore_def)
  have u: "cancellation_count exUser = 0" "credibility_score exUser = 100"
    by (simp_all add: exUser_def)
  show ?thesis
    using repeated_cancel_penalised_again[OF h, of 0 903600000 "[903600000, 903700000]"] c u
    by auto
qed

end
